theory Spec2Isabelle
  imports Complex_Main
begin

section \<open>The facade: identifier mapping\<close>

text \<open>
  The facade is the TypeScript entry point of the module. \<open>Platform.OS\<close> is a string;
  the facade compares it with \<open>"ios"\<close> and \<open>"android"\<close>, so every function of the facade
  takes it as its first argument.

  \<open>IDENTIFIER_MAPPING\<close> is an object literal. Its own properties are the ten unified
  identifiers, in the order of the source.
\<close>

record identifier_mapping =
  ios :: string
  android :: string

definition IDENTIFIER_MAPPING :: "(string \<times> identifier_mapping) list" where
  "IDENTIFIER_MAPPING =
    [(''stepCount'',
        \<lparr>ios = ''HKQuantityTypeIdentifierStepCount'', android = ''Steps''\<rparr>),
     (''heartRate'',
        \<lparr>ios = ''HKQuantityTypeIdentifierHeartRate'', android = ''HeartRate''\<rparr>),
     (''activeEnergyBurned'',
        \<lparr>ios = ''HKQuantityTypeIdentifierActiveEnergyBurned'', android = ''ActiveCaloriesBurned''\<rparr>),
     (''distanceWalkingRunning'',
        \<lparr>ios = ''HKQuantityTypeIdentifierDistanceWalkingRunning'', android = ''Distance''\<rparr>),
     (''flightsClimbed'',
        \<lparr>ios = ''HKQuantityTypeIdentifierFlightsClimbed'', android = ''FloorsClimbed''\<rparr>),
     (''restingHeartRate'',
        \<lparr>ios = ''HKQuantityTypeIdentifierRestingHeartRate'', android = ''RestingHeartRate''\<rparr>),
     (''respiratoryRate'',
        \<lparr>ios = ''HKQuantityTypeIdentifierRespiratoryRate'', android = ''RespiratoryRate''\<rparr>),
     (''vo2Max'',
        \<lparr>ios = ''HKQuantityTypeIdentifierVO2Max'', android = ''Vo2Max''\<rparr>),
     (''sleepAnalysis'',
        \<lparr>ios = ''HKCategoryTypeIdentifierSleepAnalysis'', android = ''SleepSession''\<rparr>),
     (''workout'',
        \<lparr>ios = ''HKWorkoutTypeIdentifier'', android = ''ExerciseSession''\<rparr>)]"

text \<open>
  The source reads the table with \<open>IDENTIFIER_MAPPING[key]\<close>. A property read on an
  object literal also finds what the object inherits from \<open>Object.prototype\<close>: the
  names below (ECMA-262, with its Annex B accessors) are found for every object literal,
  and their values are functions (or, for \<open>__proto__\<close>, the prototype object), all
  truthy and none with a property \<open>ios\<close> or \<open>android\<close>.
\<close>

definition Object_prototype_keys :: "string list" where
  "Object_prototype_keys =
    [''constructor'', ''hasOwnProperty'', ''isPrototypeOf'', ''propertyIsEnumerable'',
     ''toLocaleString'', ''toString'', ''valueOf'', ''__proto__'',
     ''__defineGetter__'', ''__defineSetter__'', ''__lookupGetter__'', ''__lookupSetter__'']"

datatype property_read =
    OwnEntry identifier_mapping
  | InheritedValue
  | UndefinedValue

definition read_IDENTIFIER_MAPPING :: "string \<Rightarrow> property_read" where
  "read_IDENTIFIER_MAPPING key =
    (case map_of IDENTIFIER_MAPPING key of
       Some m \<Rightarrow> OwnEntry m
     | None \<Rightarrow> if key \<in> set Object_prototype_keys then InheritedValue else UndefinedValue)"

text \<open>
  \<open>getPlatformIdentifier\<close>: \<open>if (!mapping) return crossPlatformId\<close>, then
  \<open>Platform.OS === "ios" ? mapping.ios : mapping.android\<close>. The result is \<open>None\<close> where
  the JavaScript yields \<open>undefined\<close> (the property \<open>ios\<close> or \<open>android\<close> of an inherited
  value).
\<close>

definition getPlatformIdentifier :: "string \<Rightarrow> string \<Rightarrow> string option" where
  "getPlatformIdentifier os crossPlatformId =
    (case read_IDENTIFIER_MAPPING crossPlatformId of
       UndefinedValue \<Rightarrow> Some crossPlatformId
     | OwnEntry mapping \<Rightarrow> Some (if os = ''ios'' then ios mapping else android mapping)
     | InheritedValue \<Rightarrow> None)"

text \<open>
  \<open>IDENTIFIER_MAPPING[id]?.ios || id\<close> and its Android twin, as \<open>getHealthData\<close>
  writes them: an undefined or empty left operand falls through to \<open>id\<close>.
\<close>

definition mapped_or_self :: "(identifier_mapping \<Rightarrow> string) \<Rightarrow> string \<Rightarrow> string" where
  "mapped_or_self field ident =
    (case read_IDENTIFIER_MAPPING ident of
       OwnEntry mapping \<Rightarrow> if field mapping \<noteq> [] then field mapping else ident
     | InheritedValue \<Rightarrow> ident
     | UndefinedValue \<Rightarrow> ident)"

section \<open>The facade: results, options and date validation\<close>

record HealthDataError =
  code :: string
  message :: string

text \<open>\<open>GetHealthDataResult\<close>; the sample type is a parameter, the facade never looks
  inside a sample. \<open>error = None\<close> is an absent or \<open>null\<close> error.\<close>

record 's GetHealthDataResult =
  success :: bool
  data :: "'s list"
  error :: "HealthDataError option"

text \<open>\<open>GetHealthDataOptions\<close> as a caller can really pass it from JavaScript: every
  field may be left out (\<open>None\<close>).\<close>

record GetHealthDataOptions =
  opt_identifier :: "string option"
  opt_startDate :: "string option"
  opt_endDate :: "string option"
  opt_aggregation :: "string option"
  opt_limit :: "int option"
  opt_ascending :: "bool option"

text \<open>What a native call delivers: a promise that resolves with a value, or rejects
  with something thrown (an \<open>Error\<close> with its message, or anything else).\<close>

datatype thrown = ErrorObject string | NotAnError

datatype 'a promise = Resolved 'a | Rejected thrown

definition createHealthDataError :: "string \<Rightarrow> string \<Rightarrow> HealthDataError" where
  "createHealthDataError c m = \<lparr>code = c, message = m\<rparr>"

definition createUnsupportedPlatformError :: "'s GetHealthDataResult" where
  "createUnsupportedPlatformError =
    \<lparr>success = False, data = [],
     error = Some (createHealthDataError ''permission_denied''
       ''Health data is only available on iOS and Android.'')\<rparr>"

definition createExceptionError :: "thrown \<Rightarrow> 's GetHealthDataResult" where
  "createExceptionError e =
    \<lparr>success = False, data = [],
     error = Some (createHealthDataError ''exception''
       (case e of
          ErrorObject m \<Rightarrow> m
        | NotAnError \<Rightarrow> ''An unexpected error occurred while fetching health data.''))\<rparr>"

text \<open>JavaScript's \<open>!x\<close> on an optional string: true for \<open>undefined\<close> and for the
  empty string.\<close>

definition falsy :: "string option \<Rightarrow> bool" where
  "falsy x = (case x of None \<Rightarrow> True | Some s \<Rightarrow> s = [])"

definition string_or_empty :: "string option \<Rightarrow> string" where
  "string_or_empty x = (case x of None \<Rightarrow> [] | Some s \<Rightarrow> s)"

text \<open>
  The date pattern \<open>/^\d{4}-\d{2}-\d{2}T\d{2}:\d{2}:\d{2}(\.\d{3})?Z?$/\<close>, piece by
  piece. A piece consumes a prefix of the input and returns the rest, or fails. An
  optional piece is tried first with and then without its body, as the backtracking
  matcher does. \<open>\d\<close> is an ASCII digit; \<open>$\<close> (no \<open>m\<close> flag) is the end of the input.
\<close>

definition is_digit :: "char \<Rightarrow> bool" where
  "is_digit c = (c \<in> set ''0123456789'')"

fun digit :: "string \<Rightarrow> string option" where
  "digit [] = None"
| "digit (c # s) = (if is_digit c then Some s else None)"

fun lit :: "char \<Rightarrow> string \<Rightarrow> string option" where
  "lit c [] = None"
| "lit c (d # s) = (if d = c then Some s else None)"

definition digits2 :: "string \<Rightarrow> string option" where
  "digits2 s = Option.bind (digit s) digit"

definition digits3 :: "string \<Rightarrow> string option" where
  "digits3 s = Option.bind (digits2 s) digit"

definition digits4 :: "string \<Rightarrow> string option" where
  "digits4 s = Option.bind (digits2 s) digits2"

definition optional :: "(string \<Rightarrow> string option) \<Rightarrow> (string \<Rightarrow> bool) \<Rightarrow> string \<Rightarrow> bool" where
  "optional body continue s =
    ((case body s of Some r \<Rightarrow> continue r | None \<Rightarrow> False) \<or> continue s)"

definition date_time_part :: "string \<Rightarrow> string option" where
  "date_time_part s =
    Option.bind (Option.bind (Option.bind (Option.bind (Option.bind (Option.bind
      (Option.bind (Option.bind (Option.bind (Option.bind (digits4 s)
        (lit (CHR ''-''))) digits2) (lit (CHR ''-''))) digits2) (lit (CHR ''T'')))
        digits2) (lit (CHR '':''))) digits2) (lit (CHR '':''))) digits2"

definition dateRegex_test :: "string \<Rightarrow> bool" where
  "dateRegex_test s =
    (case date_time_part s of
       None \<Rightarrow> False
     | Some r \<Rightarrow>
         optional (\<lambda>t. Option.bind (lit (CHR ''.'') t) digits3)
           (optional (lit (CHR ''Z'')) (\<lambda>t. t = [])) r)"

section \<open>The facade: \<open>getHealthData\<close> and \<open>authorizeHealthKit\<close>\<close>

text \<open>
  The facade's functions take \<open>Platform.OS\<close> and the native module's function, and
  return the promise the caller gets together with the list of native calls they made
  (each with the options it passed), in order.

  On iOS the native promise is awaited inside the \<open>try\<close>, so a rejection is caught and
  becomes an \<open>exception\<close> result. On Android the native promise is returned without
  \<open>await\<close>, so the caller gets it as it is.
\<close>

definition missing_arguments_result :: "'s GetHealthDataResult" where
  "missing_arguments_result =
    \<lparr>success = False, data = [],
     error = Some (createHealthDataError ''missing_arguments''
       ''Missing required options: identifier, startDate, endDate.'')\<rparr>"

definition invalid_date_result :: "'s GetHealthDataResult" where
  "invalid_date_result =
    \<lparr>success = False, data = [],
     error = Some (createHealthDataError ''invalid_date''
       ''Dates must be in ISO 8601 format (YYYY-MM-DDTHH:mm:ss.sssZ)'')\<rparr>"

definition ios_identifier :: "string \<Rightarrow> string" where
  "ios_identifier ident = (if take 2 ident = ''HK'' then ident else mapped_or_self ios ident)"

definition android_identifier :: "string \<Rightarrow> string" where
  "android_identifier ident =
    (if list_ex (\<lambda>(key, mapping). android mapping = ident) IDENTIFIER_MAPPING then ident
     else mapped_or_self android ident)"

definition getHealthData ::
  "string \<Rightarrow> (GetHealthDataOptions \<Rightarrow> 's GetHealthDataResult promise) \<Rightarrow> GetHealthDataOptions
    \<Rightarrow> 's GetHealthDataResult promise \<times> GetHealthDataOptions list" where
  "getHealthData os NativeModule_getHealthData options =
    (if falsy (opt_identifier options) \<or> falsy (opt_startDate options) \<or> falsy (opt_endDate options)
     then (Resolved missing_arguments_result, [])
     else if \<not> dateRegex_test (string_or_empty (opt_startDate options))
           \<or> \<not> dateRegex_test (string_or_empty (opt_endDate options))
     then (Resolved invalid_date_result, [])
     else if os = ''ios'' then
       (let healthDataOptions =
              options\<lparr>opt_identifier := Some (ios_identifier (string_or_empty (opt_identifier options)))\<rparr>
        in (case NativeModule_getHealthData healthDataOptions of
              Resolved res \<Rightarrow> Resolved res
            | Rejected e \<Rightarrow> Resolved (createExceptionError e),
            [healthDataOptions]))
     else if os = ''android'' then
       (let nativeOptions =
              options\<lparr>opt_identifier := Some (android_identifier (string_or_empty (opt_identifier options))),
                      opt_aggregation := Some (case opt_aggregation options of
                                             None \<Rightarrow> ''raw'' | Some a \<Rightarrow> a)\<rparr>
        in (NativeModule_getHealthData nativeOptions, [nativeOptions]))
     else (Resolved createUnsupportedPlatformError, []))"

record AuthorizeResult =
  auth_success :: bool
  granted :: "string list"
  denied :: "string list"
  auth_error :: "string option"

definition authorizeHealthKit ::
  "string \<Rightarrow> AuthorizeResult promise \<Rightarrow> AuthorizeResult promise \<times> nat" where
  "authorizeHealthKit os NativeModule_authorizeHealthKit =
    (if os = ''ios'' then (NativeModule_authorizeHealthKit, 1)
     else if os = ''android'' then (NativeModule_authorizeHealthKit, 1)
     else (Resolved \<lparr>auth_success = False, granted = [], denied = [],
             auth_error = Some ''Health data is only available on iOS and Android.''\<rparr>, 0))"

text \<open>The module that stands in for the native one in a web build
  (\<open>ExpoHealthkitModule.web.ts\<close>): both functions answer without looking at anything.\<close>

definition web_authorizeHealthKit :: AuthorizeResult where
  "web_authorizeHealthKit =
    \<lparr>auth_success = False, granted = [], denied = [],
     auth_error = Some ''Health data is not available on web platform.''\<rparr>"

definition web_getHealthData :: "GetHealthDataOptions \<Rightarrow> 's GetHealthDataResult" where
  "web_getHealthData options =
    \<lparr>success = False, data = [],
     error = Some \<lparr>code = ''unsupported_platform'',
                   message = ''Health data is not available on web platform.''\<rparr>\<rparr>"

section \<open>Normalized samples\<close>

text \<open>
  Both native modules return samples as dictionaries with the keys below; a key a
  platform does not write, or writes as \<open>null\<close>, is \<open>None\<close>. Doubles are modelled by the
  real numbers they stand for.
\<close>

datatype any_value = DoubleValue real | LongValue int | StringValue string

record HealthDataSample =
  sample_type :: string
  sourceName :: string
  sourceVersion :: "string option"
  device :: "string option"
  creationDate :: string
  startDate :: string
  endDate :: string
  metadata :: "(string \<times> any_value) list option"
  sample_unit :: "string option"
  sample_value :: "any_value option"
  workoutActivityType :: "string option"
  duration :: "real option"
  durationUnit :: "string option"
  totalEnergyBurned :: "real option"
  totalEnergyBurnedUnit :: "string option"
  totalDistance :: "real option"
  totalDistanceUnit :: "string option"

definition error_result :: "string \<Rightarrow> string \<Rightarrow> 's GetHealthDataResult" where
  "error_result c m = \<lparr>success = False, data = [], error = Some \<lparr>code = c, message = m\<rparr>\<rparr>"

definition success_result :: "'s list \<Rightarrow> 's GetHealthDataResult" where
  "success_result samples = \<lparr>success = True, data = samples, error = None\<rparr>"

section \<open>The Android native module\<close>

text \<open>
  Health Connect's unit classes, each with the accessors the module reads. A length is
  held in meters; \<open>inKilometers\<close> is the accessor the module does not call.
\<close>

datatype Energy = Energy (inKilocalories: real)
datatype Power = Power (inKilocaloriesPerDay: real)
datatype Percentage = Percentage (percentage_value: real)
datatype Length = Length (inMeters: real)
datatype Mass = Mass (inKilograms: real)
datatype Velocity = Velocity (inMetersPerSecond: real)

definition inKilometers :: "Length \<Rightarrow> real" where
  "inKilometers l = inMeters l / 1000"

text \<open>The record classes of \<open>getUnitForRecord\<close> and \<open>getValueForRecord\<close>, each with the
  property those functions read; \<open>OtherRecord\<close> is any other class, with its simple name.\<close>

datatype Record =
    ActiveCaloriesBurnedRecord Energy
  | BasalMetabolicRateRecord Power
  | BodyFatRecord Percentage
  | CyclingPedalingCadenceRecord real
  | DistanceRecord Length
  | ElevationGainedRecord Length
  | FloorsClimbedRecord real
  | HeartRateRecord int
  | LeanBodyMassRecord Mass
  | OxygenSaturationRecord Percentage
  | RespiratoryRateRecord real
  | RestingHeartRateRecord int
  | SpeedRecord Velocity
  | StepsCadenceRecord real
  | StepsRecord int
  | TotalCaloriesBurnedRecord Energy
  | Vo2MaxRecord real
  | ExerciseSessionRecord string
  | SleepSessionRecord "string list"
  | OtherRecord string

text \<open>The character U+00B7 of the unit \<open>mL/(kg.min)\<close>, written with a middle dot in the
  source.\<close>

definition middle_dot :: char where
  "middle_dot = CHR 0xB7"

fun getUnitForRecord :: "Record \<Rightarrow> string" where
  "getUnitForRecord (ActiveCaloriesBurnedRecord _) = ''kcal''"
| "getUnitForRecord (BasalMetabolicRateRecord _) = ''kcal/day''"
| "getUnitForRecord (BodyFatRecord _) = ''%''"
| "getUnitForRecord (CyclingPedalingCadenceRecord _) = ''rpm''"
| "getUnitForRecord (DistanceRecord _) = ''m''"
| "getUnitForRecord (ElevationGainedRecord _) = ''m''"
| "getUnitForRecord (FloorsClimbedRecord _) = ''count''"
| "getUnitForRecord (HeartRateRecord _) = ''bpm''"
| "getUnitForRecord (LeanBodyMassRecord _) = ''kg''"
| "getUnitForRecord (OxygenSaturationRecord _) = ''%''"
| "getUnitForRecord (RespiratoryRateRecord _) = ''breaths/min''"
| "getUnitForRecord (RestingHeartRateRecord _) = ''bpm''"
| "getUnitForRecord (SpeedRecord _) = ''m/s''"
| "getUnitForRecord (StepsCadenceRecord _) = ''steps/min''"
| "getUnitForRecord (StepsRecord _) = ''count''"
| "getUnitForRecord (TotalCaloriesBurnedRecord _) = ''kcal''"
| "getUnitForRecord (Vo2MaxRecord _) = ''mL/(kg'' @ [middle_dot] @ ''min)''"
| "getUnitForRecord (ExerciseSessionRecord _) = ''session''"
| "getUnitForRecord (SleepSessionRecord _) = ''session''"
| "getUnitForRecord (OtherRecord _) = ''unknown''"

fun getValueForRecord :: "Record \<Rightarrow> any_value" where
  "getValueForRecord (ActiveCaloriesBurnedRecord energy) = DoubleValue (inKilocalories energy)"
| "getValueForRecord (BasalMetabolicRateRecord basalMetabolicRate) =
     DoubleValue (inKilocaloriesPerDay basalMetabolicRate)"
| "getValueForRecord (BodyFatRecord percentage) = DoubleValue (percentage_value percentage)"
| "getValueForRecord (CyclingPedalingCadenceRecord revolutionsPerMinute) =
     DoubleValue revolutionsPerMinute"
| "getValueForRecord (DistanceRecord distance) = DoubleValue (inMeters distance)"
| "getValueForRecord (ElevationGainedRecord elevation) = DoubleValue (inMeters elevation)"
| "getValueForRecord (FloorsClimbedRecord floors) = DoubleValue floors"
| "getValueForRecord (HeartRateRecord beatsPerMinute) = LongValue beatsPerMinute"
| "getValueForRecord (LeanBodyMassRecord mass) = DoubleValue (inKilograms mass)"
| "getValueForRecord (OxygenSaturationRecord percentage) =
     DoubleValue (percentage_value percentage)"
| "getValueForRecord (RespiratoryRateRecord rate) = DoubleValue rate"
| "getValueForRecord (RestingHeartRateRecord beatsPerMinute) = LongValue beatsPerMinute"
| "getValueForRecord (SpeedRecord speed) = DoubleValue (inMetersPerSecond speed)"
| "getValueForRecord (StepsCadenceRecord rate) = DoubleValue rate"
| "getValueForRecord (StepsRecord count) = LongValue count"
| "getValueForRecord (TotalCaloriesBurnedRecord energy) = DoubleValue (inKilocalories energy)"
| "getValueForRecord (Vo2MaxRecord vo2MillilitersPerMinuteKilogram) =
     DoubleValue vo2MillilitersPerMinuteKilogram"
| "getValueForRecord (ExerciseSessionRecord exerciseTypeName) = StringValue exerciseTypeName"
| "getValueForRecord (SleepSessionRecord stages) = LongValue (int (length stages))"
| "getValueForRecord (OtherRecord _) = StringValue ''unknown''"

fun simpleName :: "Record \<Rightarrow> string" where
  "simpleName (ActiveCaloriesBurnedRecord _) = ''ActiveCaloriesBurnedRecord''"
| "simpleName (BasalMetabolicRateRecord _) = ''BasalMetabolicRateRecord''"
| "simpleName (BodyFatRecord _) = ''BodyFatRecord''"
| "simpleName (CyclingPedalingCadenceRecord _) = ''CyclingPedalingCadenceRecord''"
| "simpleName (DistanceRecord _) = ''DistanceRecord''"
| "simpleName (ElevationGainedRecord _) = ''ElevationGainedRecord''"
| "simpleName (FloorsClimbedRecord _) = ''FloorsClimbedRecord''"
| "simpleName (HeartRateRecord _) = ''HeartRateRecord''"
| "simpleName (LeanBodyMassRecord _) = ''LeanBodyMassRecord''"
| "simpleName (OxygenSaturationRecord _) = ''OxygenSaturationRecord''"
| "simpleName (RespiratoryRateRecord _) = ''RespiratoryRateRecord''"
| "simpleName (RestingHeartRateRecord _) = ''RestingHeartRateRecord''"
| "simpleName (SpeedRecord _) = ''SpeedRecord''"
| "simpleName (StepsCadenceRecord _) = ''StepsCadenceRecord''"
| "simpleName (StepsRecord _) = ''StepsRecord''"
| "simpleName (TotalCaloriesBurnedRecord _) = ''TotalCaloriesBurnedRecord''"
| "simpleName (Vo2MaxRecord _) = ''Vo2MaxRecord''"
| "simpleName (ExerciseSessionRecord _) = ''ExerciseSessionRecord''"
| "simpleName (SleepSessionRecord _) = ''SleepSessionRecord''"
| "simpleName (OtherRecord n) = n"

text \<open>A record as \<open>formatRecordToStandardFormat\<close> sees it: which of the two time
  interfaces it implements, its data origin and its device.\<close>

datatype 't record_time = InstantaneousRecord 't | IntervalRecord 't 't | NeitherRecord

record record_device =
  model :: "string option"
  manufacturer :: "string option"

record 't health_record =
  payload :: Record
  record_time :: "'t record_time"
  packageName :: "string option"
  record_device :: "record_device option"

text \<open>
  What the module reads from the device and from Health Connect: whether the Health
  Connect package is installed, \<open>Instant.parse\<close> (\<open>Inl\<close> is the message of the exception
  it throws), the read itself together with the construction of its request (\<open>Inl\<close> is
  the message of an exception thrown by either), the ISO formatter and the clock.
\<close>

record 't android_env =
  isHealthConnectAvailable :: bool
  Instant_parse :: "string \<Rightarrow> string + 't"
  readRecords :: "string \<Rightarrow> 't \<Rightarrow> 't \<Rightarrow> string + 't health_record list"
  formatter_format :: "'t \<Rightarrow> string"
  Instant_now :: 't

definition device_name :: "record_device option \<Rightarrow> string option" where
  "device_name d =
    (case d of
       None \<Rightarrow> None
     | Some dev \<Rightarrow> (case model dev of Some m \<Rightarrow> Some m | None \<Rightarrow> manufacturer dev))"

definition formatRecordToStandardFormat :: "'t android_env \<Rightarrow> 't health_record \<Rightarrow> HealthDataSample" where
  "formatRecordToStandardFormat env r =
    (let blank = \<lparr>sample_type = simpleName (payload r), sourceName = ''Unknown'',
                   sourceVersion = None, device = None,
                   creationDate = [], startDate = [], endDate = [],
                   metadata = Some [], sample_unit = Some ''unknown'',
                   sample_value = Some (StringValue ''unknown''),
                   workoutActivityType = None, duration = None, durationUnit = None,
                   totalEnergyBurned = None, totalEnergyBurnedUnit = None,
                   totalDistance = None, totalDistanceUnit = None\<rparr>;
         described = blank\<lparr>sourceName := (case packageName r of Some n \<Rightarrow> n | None \<Rightarrow> ''Unknown''),
                         device := device_name (record_device r),
                         sample_unit := Some (getUnitForRecord (payload r)),
                         sample_value := Some (getValueForRecord (payload r))\<rparr>
     in case record_time r of
          InstantaneousRecord t \<Rightarrow>
            described\<lparr>creationDate := formatter_format env t,
                      startDate := formatter_format env t,
                      endDate := formatter_format env t\<rparr>
        | IntervalRecord startTime endTime \<Rightarrow>
            described\<lparr>creationDate := formatter_format env endTime,
                      startDate := formatter_format env startTime,
                      endDate := formatter_format env endTime\<rparr>
        | NeitherRecord \<Rightarrow>
            blank\<lparr>creationDate := formatter_format env (Instant_now env),
                  startDate := formatter_format env (Instant_now env),
                  endDate := formatter_format env (Instant_now env)\<rparr>)"

text \<open>\<open>recordTypeMap\<close>: the identifiers the Android module reads, each with the record
  class it asks Health Connect for.\<close>

definition recordTypeMap :: "(string \<times> string) list" where
  "recordTypeMap =
    [(''ActiveCaloriesBurned'', ''ActiveCaloriesBurnedRecord''),
     (''BasalMetabolicRate'', ''BasalMetabolicRateRecord''),
     (''BodyFat'', ''BodyFatRecord''),
     (''CyclingPedalingCadence'', ''CyclingPedalingCadenceRecord''),
     (''Distance'', ''DistanceRecord''),
     (''ElevationGained'', ''ElevationGainedRecord''),
     (''ExerciseSession'', ''ExerciseSessionRecord''),
     (''FloorsClimbed'', ''FloorsClimbedRecord''),
     (''HeartRate'', ''HeartRateRecord''),
     (''LeanBodyMass'', ''LeanBodyMassRecord''),
     (''OxygenSaturation'', ''OxygenSaturationRecord''),
     (''RespiratoryRate'', ''RespiratoryRateRecord''),
     (''RestingHeartRate'', ''RestingHeartRateRecord''),
     (''SleepSession'', ''SleepSessionRecord''),
     (''Speed'', ''SpeedRecord''),
     (''StepsCadence'', ''StepsCadenceRecord''),
     (''Steps'', ''StepsRecord''),
     (''TotalCaloriesBurned'', ''TotalCaloriesBurnedRecord''),
     (''Vo2Max'', ''Vo2MaxRecord'')]"

fun joinToString :: "string \<Rightarrow> string list \<Rightarrow> string" where
  "joinToString sep [] = []"
| "joinToString sep [x] = x"
| "joinToString sep (x # y # ys) = x @ sep @ joinToString sep (y # ys)"

text \<open>
  The Android \<open>getHealthData\<close>. The second component of the result counts the reads
  issued against Health Connect. The three guards come in the order of the source:
  missing arguments, Health Connect not installed, identifier not in \<open>recordTypeMap\<close>;
  then the body of the \<open>try\<close>, whose every exception becomes \<open>query_error\<close>.
\<close>

definition android_getHealthData ::
  "'t android_env \<Rightarrow> GetHealthDataOptions \<Rightarrow> HealthDataSample GetHealthDataResult \<times> nat" where
  "android_getHealthData env options =
    (case (opt_identifier options, opt_startDate options, opt_endDate options) of
       (Some ident, Some startDateString, Some endDateString) \<Rightarrow>
         if \<not> isHealthConnectAvailable env then
           (error_result ''health_connect_unavailable''
              ''Health Connect is not available on this device.'', 0)
         else
           (case map_of recordTypeMap ident of
              None \<Rightarrow>
                (error_result ''unsupported_identifier''
                   (''Identifier '' @ [CHR 0x27] @ ident @ [CHR 0x27] @ '' not supported. Available: ''
                      @ joinToString '', '' (map fst recordTypeMap)), 0)
            | Some recordType \<Rightarrow>
                (case Instant_parse env startDateString of
                   Inl m \<Rightarrow> (error_result ''query_error'' (''Failed to fetch data: '' @ m), 0)
                 | Inr startTime \<Rightarrow>
                     (case Instant_parse env endDateString of
                        Inl m \<Rightarrow> (error_result ''query_error'' (''Failed to fetch data: '' @ m), 0)
                      | Inr endTime \<Rightarrow>
                          (case readRecords env recordType startTime endTime of
                             Inl m \<Rightarrow>
                               (error_result ''query_error'' (''Failed to fetch data: '' @ m), 1)
                           | Inr records \<Rightarrow>
                               (success_result (map (formatRecordToStandardFormat env) records),
                                1)))))
     | _ \<Rightarrow>
         (error_result ''missing_arguments''
            ''Missing required options: identifier, startDate, endDate.'', 0))"

section \<open>The iOS native module: units and sleep stages\<close>

text \<open>\<open>HKUnit\<close>, as far as the module builds units: the factory methods it calls and the
  two combinators.\<close>

datatype metric_prefix = kilo | milli

datatype HKUnit =
    HKUnit_kilocalorie
  | HKUnit_minute
  | HKUnit_second
  | HKUnit_count
  | HKUnit_meterUnit metric_prefix
  | HKUnit_secondUnit metric_prefix
  | HKUnit_literUnit metric_prefix
  | HKUnit_gramUnit metric_prefix
  | unitDivided HKUnit HKUnit
  | unitMultiplied HKUnit HKUnit

definition quantityTypeIdentifiers :: "string list" where
  "quantityTypeIdentifiers =
    [''HKQuantityTypeIdentifierActiveEnergyBurned'',
     ''HKQuantityTypeIdentifierAppleExerciseTime'',
     ''HKQuantityTypeIdentifierAppleStandTime'',
     ''HKQuantityTypeIdentifierBasalEnergyBurned'',
     ''HKQuantityTypeIdentifierDistanceCycling'',
     ''HKQuantityTypeIdentifierDistanceWalkingRunning'',
     ''HKQuantityTypeIdentifierFlightsClimbed'',
     ''HKQuantityTypeIdentifierHeartRate'',
     ''HKQuantityTypeIdentifierHeartRateRecoveryOneMinute'',
     ''HKQuantityTypeIdentifierHeartRateVariabilitySDNN'',
     ''HKQuantityTypeIdentifierRespiratoryRate'',
     ''HKQuantityTypeIdentifierRestingHeartRate'',
     ''HKQuantityTypeIdentifierStepCount'',
     ''HKQuantityTypeIdentifierVO2Max'']"

definition categoryTypeIdentifiers :: "string list" where
  "categoryTypeIdentifiers = [''HKCategoryTypeIdentifierSleepAnalysis'']"

definition workoutTypeIdentifiers :: "string list" where
  "workoutTypeIdentifiers = [''HKWorkoutTypeIdentifier'']"

text \<open>\<open>HKObjectType.workoutType().identifier\<close>, a constant of HealthKit.\<close>

definition workoutType_identifier :: string where
  "workoutType_identifier = ''HKWorkoutTypeIdentifier''"

definition getUnit :: "string \<Rightarrow> HKUnit option" where
  "getUnit forIdentifier =
    (if forIdentifier = ''HKQuantityTypeIdentifierActiveEnergyBurned''
        \<or> forIdentifier = ''HKQuantityTypeIdentifierBasalEnergyBurned''
     then Some HKUnit_kilocalorie
     else if forIdentifier = ''HKQuantityTypeIdentifierAppleExerciseTime''
        \<or> forIdentifier = ''HKQuantityTypeIdentifierAppleStandTime''
     then Some HKUnit_minute
     else if forIdentifier = ''HKQuantityTypeIdentifierDistanceCycling''
        \<or> forIdentifier = ''HKQuantityTypeIdentifierDistanceWalkingRunning''
     then Some (HKUnit_meterUnit kilo)
     else if forIdentifier = ''HKQuantityTypeIdentifierFlightsClimbed''
        \<or> forIdentifier = ''HKQuantityTypeIdentifierStepCount''
     then Some HKUnit_count
     else if forIdentifier = ''HKQuantityTypeIdentifierHeartRate''
        \<or> forIdentifier = ''HKQuantityTypeIdentifierHeartRateRecoveryOneMinute''
        \<or> forIdentifier = ''HKQuantityTypeIdentifierRestingHeartRate''
        \<or> forIdentifier = ''HKQuantityTypeIdentifierRespiratoryRate''
     then Some (unitDivided HKUnit_count HKUnit_minute)
     else if forIdentifier = ''HKQuantityTypeIdentifierHeartRateVariabilitySDNN''
     then Some (HKUnit_secondUnit milli)
     else if forIdentifier = ''HKQuantityTypeIdentifierVO2Max''
     then Some (unitDivided (HKUnit_literUnit milli)
                  (unitMultiplied (HKUnit_gramUnit kilo) HKUnit_minute))
     else None)"

text \<open>Swift's \<open>"\(value)"\<close> for an \<open>Int\<close>: its decimal digits, with a minus sign when
  negative.\<close>

fun decimal_digits :: "nat \<Rightarrow> string" where
  "decimal_digits n =
    (if n < 10 then [''0123456789'' ! n]
     else decimal_digits (n div 10) @ [''0123456789'' ! (n mod 10)])"

definition Int_description :: "int \<Rightarrow> string" where
  "Int_description v =
    (if v < 0 then CHR ''-'' # decimal_digits (nat (- v)) else decimal_digits (nat v))"

declare decimal_digits.simps [simp del]

text \<open>Reading a decimal description back, to state that a placeholder string determines
  the raw value it was built from.\<close>

definition digit_value :: "char \<Rightarrow> nat" where
  "digit_value c = of_char c - 48"

definition decimal_value :: "string \<Rightarrow> nat" where
  "decimal_value s = foldl (\<lambda>a c. 10 * a + digit_value c) 0 s"

definition Int_of_description :: "string \<Rightarrow> int" where
  "Int_of_description s =
    (case s of
       [] \<Rightarrow> 0
     | c # t \<Rightarrow> if c = CHR ''-'' then - int (decimal_value t) else int (decimal_value s))"

text \<open>
  \<open>mapSleepAnalysisValue\<close>. The raw values of \<open>HKCategoryValueSleepAnalysis\<close> are the ones
  the source's comments give: \<open>inBed\<close> 0, \<open>awake\<close> 2, \<open>asleepCore\<close> 3, \<open>asleepDeep\<close> 4,
  \<open>asleepREM\<close> 5. The first argument is \<open>#available(iOS 16.0, *)\<close>.
\<close>

definition mapSleepAnalysisValue :: "bool \<Rightarrow> int \<Rightarrow> string" where
  "mapSleepAnalysisValue iOS16 v =
    (if v = 0 then ''HKCategoryValueSleepAnalysisInBed''
     else if v = 2 then ''HKCategoryValueSleepAnalysisAwake''
     else if iOS16 then
       (if v = 3 then ''HKCategoryValueSleepAnalysisAsleepCore''
        else if v = 4 then ''HKCategoryValueSleepAnalysisAsleepDeep''
        else if v = 5 then ''HKCategoryValueSleepAnalysisAsleepREM''
        else ''UNKNOWN_SLEEP_VALUE_'' @ Int_description v)
     else
       (if v = 3 then ''HKCategoryValueSleepAnalysisAsleepCore''
        else if v = 4 then ''HKCategoryValueSleepAnalysisAsleepDeep''
        else if v = 5 then ''HKCategoryValueSleepAnalysisAsleepREM''
        else ''UNKNOWN_SLEEP_VALUE_'' @ Int_description v))"

section \<open>The iOS native module: samples and \<open>getHealthData\<close>\<close>

text \<open>
  HealthKit's samples, with what the module reads of them. \<open>'q\<close> is \<open>HKQuantity\<close> and
  \<open>'d\<close> is \<open>Date\<close>, both opaque; a metadata value is a string, a number, a date or
  something else.
\<close>

datatype 'd meta_value = MetaString string | MetaNumber real | MetaDate 'd | MetaOther

record 'd sample_base =
  source_name :: string
  source_version :: "string option"
  device_name_of :: "string option"
  hk_startDate :: 'd
  hk_endDate :: 'd
  hk_metadata :: "(string \<times> 'd meta_value) list option"

datatype ('q, 'd) HKSample =
    HKQuantitySample "'d sample_base" string 'q
  | HKCategorySample "'d sample_base" string int
  | HKWorkout "'d sample_base" string real "'q option" "'q option"

text \<open>
  What the module reads from HealthKit and Foundation: the ISO formatter in both
  directions, whether HealthKit knows a quantity or category type of a given name,
  \<open>unitString\<close> and \<open>doubleValue(for:)\<close>, what the sample query hands to its completion
  handler (the samples and the error, either of which may be \<open>nil\<close>), and
  \<open>#available(iOS 16.0, *)\<close>.
\<close>

record ('q, 'd) ios_env =
  isoFormatter_date :: "string \<Rightarrow> 'd option"
  isoFormatter_string :: "'d \<Rightarrow> string"
  quantityType_known :: "string \<Rightarrow> bool"
  categoryType_known :: "string \<Rightarrow> bool"
  unitString :: "HKUnit \<Rightarrow> string"
  doubleValue :: "'q \<Rightarrow> HKUnit \<Rightarrow> real"
  execute_query :: "string \<Rightarrow> 'd \<Rightarrow> 'd \<Rightarrow> ('q, 'd) HKSample list option \<times> string option"
  iOS16_available :: bool

definition formatMetadata ::
  "('q, 'd) ios_env \<Rightarrow> (string \<times> 'd meta_value) list option \<Rightarrow> (string \<times> any_value) list option" where
  "formatMetadata env md =
    (case md of
       None \<Rightarrow> None
     | Some entries \<Rightarrow>
         (let formattedMeta =
                List.map_filter
                  (\<lambda>(key, v). case v of
                      MetaString s \<Rightarrow> Some (key, StringValue s)
                    | MetaNumber n \<Rightarrow> Some (key, DoubleValue n)
                    | MetaDate d \<Rightarrow> Some (key, StringValue (isoFormatter_string env d))
                    | MetaOther \<Rightarrow> None)
                  entries
          in if formattedMeta = [] then None else Some formattedMeta))"

definition base_fields :: "('q, 'd) ios_env \<Rightarrow> string \<Rightarrow> 'd sample_base \<Rightarrow> HealthDataSample" where
  "base_fields env ty b =
    \<lparr>sample_type = ty, sourceName = source_name b, sourceVersion = source_version b,
     device = device_name_of b,
     creationDate = isoFormatter_string env (hk_endDate b),
     startDate = isoFormatter_string env (hk_startDate b),
     endDate = isoFormatter_string env (hk_endDate b),
     metadata = formatMetadata env (hk_metadata b),
     sample_unit = None, sample_value = None,
     workoutActivityType = None, duration = None, durationUnit = None,
     totalEnergyBurned = None, totalEnergyBurnedUnit = None,
     totalDistance = None, totalDistanceUnit = None\<rparr>"

text \<open>The three closures that turn one sample into its dictionary. Each is applied only
  after the \<open>as?\<close> cast of the whole array to its sample class has succeeded.\<close>

fun format_quantity_sample :: "('q, 'd) ios_env \<Rightarrow> HKUnit \<Rightarrow> ('q, 'd) HKSample \<Rightarrow> HealthDataSample option" where
  "format_quantity_sample env specificUnit (HKQuantitySample b ty quantity) =
     Some ((base_fields env ty b)
       \<lparr>sample_unit := Some (unitString env specificUnit),
        sample_value := Some (DoubleValue (doubleValue env quantity specificUnit))\<rparr>)"
| "format_quantity_sample env specificUnit _ = None"

fun format_category_sample :: "('q, 'd) ios_env \<Rightarrow> ('q, 'd) HKSample \<Rightarrow> HealthDataSample option" where
  "format_category_sample env (HKCategorySample b ty v) =
     Some ((base_fields env ty b)
       \<lparr>sample_value :=
          Some (if ty = ''HKCategoryTypeIdentifierSleepAnalysis''
                then StringValue (mapSleepAnalysisValue (iOS16_available env) v)
                else LongValue v)\<rparr>)"
| "format_category_sample env _ = None"

fun format_workout_sample :: "('q, 'd) ios_env \<Rightarrow> ('q, 'd) HKSample \<Rightarrow> HealthDataSample option" where
  "format_workout_sample env (HKWorkout b activityName dur energy distance) =
     Some ((base_fields env workoutType_identifier b)
       \<lparr>workoutActivityType := Some activityName,
        duration := Some dur,
        durationUnit := Some (unitString env HKUnit_second),
        totalEnergyBurned := map_option (\<lambda>q. doubleValue env q HKUnit_kilocalorie) energy,
        totalEnergyBurnedUnit :=
          (if energy \<noteq> None then Some (unitString env HKUnit_kilocalorie) else None),
        totalDistance := map_option (\<lambda>q. doubleValue env q (HKUnit_meterUnit kilo)) distance,
        totalDistanceUnit :=
          (if distance \<noteq> None then Some (unitString env (HKUnit_meterUnit kilo)) else None)\<rparr>)"
| "format_workout_sample env _ = None"

text \<open>\<open>samples as? [T]\<close> followed by \<open>map\<close>: the formatted samples when the array is
  there and every element is of the class, \<open>None\<close> otherwise.\<close>

fun cast_and_format :: "('s \<Rightarrow> 'a option) \<Rightarrow> 's list \<Rightarrow> 'a list option" where
  "cast_and_format f [] = Some []"
| "cast_and_format f (x # xs) =
     (case f x of
        None \<Rightarrow> None
      | Some y \<Rightarrow> (case cast_and_format f xs of None \<Rightarrow> None | Some ys \<Rightarrow> Some (y # ys)))"

definition completion_handler ::
  "(('q, 'd) HKSample \<Rightarrow> HealthDataSample option) \<Rightarrow> ('q, 'd) HKSample list option \<times> string option
    \<Rightarrow> HealthDataSample GetHealthDataResult" where
  "completion_handler format delivered =
    (case snd delivered of
       Some localizedDescription \<Rightarrow> error_result ''query_error'' localizedDescription
     | None \<Rightarrow>
         (case fst delivered of
            None \<Rightarrow> success_result []
          | Some samples \<Rightarrow>
              (case cast_and_format format samples of
                 Some formattedSamples \<Rightarrow> success_result formattedSamples
               | None \<Rightarrow> success_result [])))"

text \<open>
  The iOS \<open>getHealthData\<close>. The second component lists the queries executed on the
  health store. The branch on the identifier is the source's \<open>if\<close> / \<open>else if\<close> chain;
  the result of a branch that executes a query is what its completion handler stores,
  since the function waits for the handler before it resolves.
\<close>

definition ios_getHealthData ::
  "('q, 'd) ios_env \<Rightarrow> GetHealthDataOptions \<Rightarrow> HealthDataSample GetHealthDataResult \<times> string list" where
  "ios_getHealthData env options =
    (let ident = string_or_empty (opt_identifier options);
         startDateString = string_or_empty (opt_startDate options);
         endDateString = string_or_empty (opt_endDate options)
     in if ident = [] \<or> startDateString = [] \<or> endDateString = [] then
          (error_result ''missing_arguments''
             ''Missing required options: identifier, startDate, endDate.'', [])
        else
          (case (isoFormatter_date env startDateString, isoFormatter_date env endDateString) of
             (Some start, Some end) \<Rightarrow>
               if ident \<in> set quantityTypeIdentifiers \<and> quantityType_known env ident then
                 (case getUnit ident of
                    None \<Rightarrow>
                      (error_result ''internal_error''
                         (''Could not determine unit for identifier: '' @ ident), [])
                  | Some specificUnit \<Rightarrow>
                      (completion_handler (format_quantity_sample env specificUnit)
                         (execute_query env ident start end), [ident]))
               else if ident \<in> set categoryTypeIdentifiers \<and> categoryType_known env ident then
                 (completion_handler (format_category_sample env)
                    (execute_query env ident start end), [ident])
               else if ident = workoutType_identifier then
                 (completion_handler (format_workout_sample env)
                    (execute_query env ident start end), [ident])
               else
                 (error_result ''unsupported_identifier'' ''Identifier not supported.'', [])
           | _ \<Rightarrow> (error_result ''invalid_date'' ''Invalid date format.'', [])))"

text \<open>The \<open>catch\<close> clause that closes the body of the iOS \<open>getHealthData\<close> resolves with
  the result below. No statement of the \<open>do\<close> block throws, so \<open>ios_getHealthData\<close> has
  no branch that ends there.\<close>

definition ios_exception_result :: "string \<Rightarrow> HealthDataSample GetHealthDataResult" where
  "ios_exception_result localizedDescription = error_result ''exception'' localizedDescription"

section \<open>Background sync\<close>

record BackgroundSyncResult =
  sync_success :: bool
  sync_error :: "string option"

record BackgroundSyncStatus =
  enabled :: bool
  lastSync :: "string option"
  status_error :: "string option"

record BackgroundSyncOptions =
  syncInterval :: "real option"
  dataTypes :: "string list option"

text \<open>
  The iOS module keeps its background-sync state in instance variables. What it does to
  the health store, the task scheduler and the event emitter is logged in \<open>effects\<close>,
  in order.
\<close>

datatype effect =
    ExecuteObserverQuery string
  | StopObserverQuery string
  | SubmitRefreshRequest real
  | CancelRefreshRequest
  | SendBackgroundSyncComplete "string list" string

record ios_module =
  syncIntervalHours :: real
  observerQueries :: "string list"
  backgroundSyncEnabled :: bool
  lastSyncTimestamp :: "string option"
  backgroundTaskHandlerRegistered :: bool
  effects :: "effect list"

definition ios_module_created :: ios_module where
  "ios_module_created =
    \<lparr>syncIntervalHours = 24, observerQueries = [], backgroundSyncEnabled = False,
     lastSyncTimestamp = None, backgroundTaskHandlerRegistered = False, effects = []\<rparr>"

definition observed_sample_types :: "string list" where
  "observed_sample_types =
    [''HKQuantityTypeIdentifierStepCount'',
     ''HKQuantityTypeIdentifierHeartRate'',
     ''HKQuantityTypeIdentifierActiveEnergyBurned'',
     ''HKQuantityTypeIdentifierDistanceWalkingRunning'',
     ''HKQuantityTypeIdentifierFlightsClimbed'',
     ''HKQuantityTypeIdentifierRestingHeartRate'',
     ''HKQuantityTypeIdentifierRespiratoryRate'',
     ''HKQuantityTypeIdentifierVO2Max'',
     ''HKCategoryTypeIdentifierSleepAnalysis'',
     ''HKWorkoutTypeIdentifier'']"

definition setupHealthDataObserver :: "ios_module \<Rightarrow> ios_module" where
  "setupHealthDataObserver m =
    m\<lparr>observerQueries := observerQueries m @ observed_sample_types,
      effects := effects m @ map ExecuteObserverQuery observed_sample_types\<rparr>"

definition scheduleBackgroundHealthSync :: "ios_module \<Rightarrow> ios_module" where
  "scheduleBackgroundHealthSync m =
    (if \<not> backgroundSyncEnabled m then m
     else m\<lparr>effects := effects m
                @ [SubmitRefreshRequest (max (syncIntervalHours m * 60 * 60) (15 * 60))]\<rparr>)"

text \<open>\<open>enableBackgroundSync\<close>; \<open>now\<close> is the formatted current date of the event it
  emits.\<close>

definition ios_enableBackgroundSync ::
  "string \<Rightarrow> BackgroundSyncOptions \<Rightarrow> ios_module \<Rightarrow> BackgroundSyncResult \<times> ios_module" where
  "ios_enableBackgroundSync now options m =
    (let m1 = (case syncInterval options of
                 Some interval \<Rightarrow> m\<lparr>syncIntervalHours := interval\<rparr>
               | None \<Rightarrow> m);
         m2 = m1\<lparr>backgroundSyncEnabled := True\<rparr>;
         m3 = setupHealthDataObserver m2;
         m4 = scheduleBackgroundHealthSync m3;
         m5 = m4\<lparr>effects := effects m4
                  @ [SendBackgroundSyncComplete
                       (case dataTypes options of Some ts \<Rightarrow> ts | None \<Rightarrow> []) now]\<rparr>
     in (\<lparr>sync_success = True, sync_error = None\<rparr>, m5))"

definition ios_getBackgroundSyncStatus :: "ios_module \<Rightarrow> BackgroundSyncStatus \<times> ios_module" where
  "ios_getBackgroundSyncStatus m =
    (\<lparr>enabled = backgroundSyncEnabled m, lastSync = lastSyncTimestamp m, status_error = None\<rparr>,
     m)"

definition ios_disableBackgroundSync :: "ios_module \<Rightarrow> BackgroundSyncResult \<times> ios_module" where
  "ios_disableBackgroundSync m =
    (\<lparr>sync_success = True, sync_error = None\<rparr>,
     m\<lparr>observerQueries := [],
       backgroundSyncEnabled := False,
       effects := effects m @ map StopObserverQuery (observerQueries m)
                    @ [CancelRefreshRequest]\<rparr>)"

text \<open>The Android module has no background-sync state: its three functions are the
  stubs of the source, written over a state of type \<open>unit\<close>.\<close>

definition android_enableBackgroundSync ::
  "BackgroundSyncOptions \<Rightarrow> unit \<Rightarrow> BackgroundSyncResult \<times> unit" where
  "android_enableBackgroundSync options m =
    (\<lparr>sync_success = False,
      sync_error = Some
        ''Background sync handled by Expo BackgroundTask service. Enable sync in main app.''\<rparr>,
     m)"

definition android_getBackgroundSyncStatus :: "unit \<Rightarrow> BackgroundSyncStatus \<times> unit" where
  "android_getBackgroundSyncStatus m =
    (\<lparr>enabled = False, lastSync = None, status_error = None\<rparr>, m)"

definition android_disableBackgroundSync :: "unit \<Rightarrow> BackgroundSyncResult \<times> unit" where
  "android_disableBackgroundSync m = (\<lparr>sync_success = True, sync_error = None\<rparr>, m)"

text \<open>One call and then, at once, the status call on the state the first call left.\<close>

definition then_status :: "('m \<Rightarrow> 'r \<times> 'm) \<Rightarrow> ('m \<Rightarrow> BackgroundSyncStatus \<times> 'm) \<Rightarrow> 'm \<Rightarrow> BackgroundSyncStatus" where
  "then_status call status m = fst (status (snd (call m)))"

section \<open>Predicates on results\<close>

text \<open>The contract of a \<open>getHealthData\<close> result: a failure has no data and has an
  error; a success has no error.\<close>

definition result_consistent :: "'s GetHealthDataResult \<Rightarrow> bool" where
  "result_consistent r =
    (if success r then error r = None else data r = [] \<and> error r \<noteq> None)"

definition failed_with :: "string \<Rightarrow> 's GetHealthDataResult \<Rightarrow> bool" where
  "failed_with c r =
    (\<not> success r \<and> data r = [] \<and> (case error r of None \<Rightarrow> False | Some e \<Rightarrow> code e = c))"

definition resolves_with :: "('a \<Rightarrow> bool) \<Rightarrow> 'a promise \<Rightarrow> bool" where
  "resolves_with P p = (case p of Resolved r \<Rightarrow> P r | Rejected _ \<Rightarrow> False)"

text \<open>The facade on top of each native module, as the application runs it: the native
  function of the facade is the platform's \<open>getHealthData\<close>, which always resolves.\<close>

definition ios_stack ::
  "('q, 'd) ios_env \<Rightarrow> GetHealthDataOptions
    \<Rightarrow> HealthDataSample GetHealthDataResult promise \<times> GetHealthDataOptions list" where
  "ios_stack env options =
    getHealthData ''ios'' (\<lambda>opts. Resolved (fst (ios_getHealthData env opts))) options"

definition android_stack ::
  "'t android_env \<Rightarrow> GetHealthDataOptions
    \<Rightarrow> HealthDataSample GetHealthDataResult promise \<times> GetHealthDataOptions list" where
  "android_stack env options =
    getHealthData ''android'' (\<lambda>opts. Resolved (fst (android_getHealthData env opts))) options"

section \<open>Concrete inputs\<close>

text \<open>Inputs at which the theorems below are evaluated: options with only the three
  required fields, a native function that rejects, and one environment for each native
  module.\<close>

definition query_options :: "string option \<Rightarrow> string option \<Rightarrow> string option \<Rightarrow> GetHealthDataOptions" where
  "query_options i s e =
    \<lparr>opt_identifier = i, opt_startDate = s, opt_endDate = e, opt_aggregation = None,
     opt_limit = None, opt_ascending = None\<rparr>"

definition rejecting_native :: "GetHealthDataOptions \<Rightarrow> HealthDataSample GetHealthDataResult promise" where
  "rejecting_native opts = Rejected NotAnError"

definition sample_android_env :: "bool \<Rightarrow> nat android_env" where
  "sample_android_env installed =
    \<lparr>isHealthConnectAvailable = installed,
     Instant_parse = (\<lambda>s. if s = [] then Inl ''Text could not be parsed'' else Inr 0),
     readRecords = (\<lambda>recordType startTime endTime.
        Inr [\<lparr>payload = StepsRecord 500, record_time = IntervalRecord startTime endTime,
              packageName = Some ''com.example.steps'', record_device = None\<rparr>]),
     formatter_format = (\<lambda>t. ''instant''),
     Instant_now = 0\<rparr>"

definition sample_ios_env :: "(real, nat) ios_env" where
  "sample_ios_env =
    \<lparr>isoFormatter_date = (\<lambda>s. if s = [] then None else Some 0),
     isoFormatter_string = (\<lambda>d. ''date''),
     quantityType_known = (\<lambda>ident. True),
     categoryType_known = (\<lambda>ident. True),
     unitString = (\<lambda>u. ''unit''),
     doubleValue = (\<lambda>q u. q),
     execute_query = (\<lambda>ident start end. (Some [], None)),
     iOS16_available = True\<rparr>"

definition step_sample_base :: "nat sample_base" where
  "step_sample_base =
    \<lparr>source_name = ''Watch'', source_version = Some ''10.0'', device_name_of = Some ''Apple Watch'',
     hk_startDate = 0, hk_endDate = 0, hk_metadata = None\<rparr>"

definition steps_ios_env :: "(real, nat) ios_env" where
  "steps_ios_env =
    sample_ios_env
      \<lparr>unitString := (\<lambda>u. if u = HKUnit_count then ''count'' else ''other''),
       execute_query := (\<lambda>ident start end.
          (Some [HKQuantitySample step_sample_base ''HKQuantityTypeIdentifierStepCount'' 500],
           None))\<rparr>"

section \<open>Properties of the identifier mapping\<close>

lemma IDENTIFIER_MAPPING_ios_all:
  "list_all (\<lambda>(key, m). getPlatformIdentifier ''ios'' key = Some (ios m)) IDENTIFIER_MAPPING"
  by (simp add: IDENTIFIER_MAPPING_def getPlatformIdentifier_def read_IDENTIFIER_MAPPING_def)

lemma IDENTIFIER_MAPPING_android_all:
  "list_all (\<lambda>(key, m). getPlatformIdentifier ''android'' key = Some (android m))
     IDENTIFIER_MAPPING"
  by (simp add: IDENTIFIER_MAPPING_def getPlatformIdentifier_def read_IDENTIFIER_MAPPING_def)

lemma getPlatformIdentifier_table_ios:
  "(key, m) \<in> set IDENTIFIER_MAPPING \<Longrightarrow> getPlatformIdentifier ''ios'' key = Some (ios m)"
  using IDENTIFIER_MAPPING_ios_all unfolding list_all_iff by blast

lemma getPlatformIdentifier_table_android:
  "(key, m) \<in> set IDENTIFIER_MAPPING \<Longrightarrow>
   getPlatformIdentifier ''android'' key = Some (android m)"
  using IDENTIFIER_MAPPING_android_all unfolding list_all_iff by blast

lemma getPlatformIdentifier_unknown:
  "map_of IDENTIFIER_MAPPING key = None \<Longrightarrow> key \<notin> set Object_prototype_keys \<Longrightarrow>
   getPlatformIdentifier os key = Some key"
  by (simp add: getPlatformIdentifier_def read_IDENTIFIER_MAPPING_def)

text \<open>
  C1. The claim: every unified identifier of the table maps to its documented iOS or
  Android name, and every string that is not in the table comes back unchanged. The
  table part holds (lemmas above). The second part fails for a name that the table
  inherits from \<open>Object.prototype\<close>: \<open>"constructor"\<close> is not a key of the table, the read
  \<open>IDENTIFIER_MAPPING["constructor"]\<close> is truthy, and the function returns the \<open>android\<close>
  (or \<open>ios\<close>) property of that inherited value, which is undefined, on every platform.
\<close>

theorem getPlatformIdentifier_inherited_key:
  "map_of IDENTIFIER_MAPPING ''constructor'' = None \<and>
   getPlatformIdentifier ''ios'' ''constructor'' = None \<and>
   getPlatformIdentifier ''android'' ''constructor'' = None \<and>
   getPlatformIdentifier ''android'' ''constructor'' \<noteq> Some ''constructor'' \<and>
   mapped_or_self android ''constructor'' = ''constructor''"
  by (simp add: IDENTIFIER_MAPPING_def getPlatformIdentifier_def read_IDENTIFIER_MAPPING_def
      Object_prototype_keys_def mapped_or_self_def)

section \<open>Properties of \<open>getHealthData\<close>: argument and date validation\<close>

lemma falsy_missing:
  "falsy (opt_identifier options) \<or> falsy (opt_startDate options) \<or> falsy (opt_endDate options) \<Longrightarrow>
   getHealthData os native options = (Resolved missing_arguments_result, [])"
  by (simp add: getHealthData_def)

lemma failed_with_missing_arguments_result:
  "failed_with ''missing_arguments'' missing_arguments_result"
  by (simp add: failed_with_def missing_arguments_result_def createHealthDataError_def)

lemma failed_with_invalid_date_result:
  "failed_with ''invalid_date'' invalid_date_result"
  by (simp add: failed_with_def invalid_date_result_def createHealthDataError_def)

lemma failed_with_createUnsupportedPlatformError:
  "failed_with ''permission_denied'' createUnsupportedPlatformError"
  by (simp add: failed_with_def createUnsupportedPlatformError_def createHealthDataError_def)

lemma failed_with_error_result: "failed_with c (error_result c m)"
  by (simp add: failed_with_def error_result_def)

lemma dateRegex_examples:
  "dateRegex_test ''2024-01-01T00:00:00.000Z''"
  "dateRegex_test ''2024-01-01T00:00:00Z''"
  "dateRegex_test ''2024-01-01T00:00:00''"
  "dateRegex_test ''2024-01-01T00:00:00.123''"
  "\<not> dateRegex_test ''not-a-date''"
  "\<not> dateRegex_test ''''"
  "\<not> dateRegex_test ''2024-01-01''"
  "\<not> dateRegex_test ''2024-01-01T00:00:00.12Z''"
  "\<not> dateRegex_test ''2024-01-01T00:00:00Zx''"
  "\<not> dateRegex_test ''2024-01-01 00:00:00Z''"
  by (simp_all add: dateRegex_test_def date_time_part_def digits4_def digits3_def digits2_def
      optional_def is_digit_def)

lemma invalid_date_branch:
  assumes "\<not> falsy (opt_identifier options)" "\<not> falsy (opt_startDate options)"
    "\<not> falsy (opt_endDate options)"
    "\<not> dateRegex_test (string_or_empty (opt_startDate options))
      \<or> \<not> dateRegex_test (string_or_empty (opt_endDate options))"
  shows "getHealthData os native options = (Resolved invalid_date_result, [])"
  using assms by (simp add: getHealthData_def)

lemma unsupported_platform_branch:
  assumes "os \<noteq> ''ios''" "os \<noteq> ''android''"
    and "\<not> falsy (opt_identifier options)" "\<not> falsy (opt_startDate options)"
    and "\<not> falsy (opt_endDate options)"
    and "dateRegex_test (string_or_empty (opt_startDate options))"
    and "dateRegex_test (string_or_empty (opt_endDate options))"
  shows "getHealthData os native options = (Resolved createUnsupportedPlatformError, [])"
  using assms by (simp add: getHealthData_def)

text \<open>
  C4. Whenever \<open>identifier\<close>, \<open>startDate\<close> or \<open>endDate\<close> is omitted, \<open>getHealthData\<close>
  resolves with \<open>success: false\<close>, code \<open>missing_arguments\<close> and no data, and nothing is
  asked of the layer below: the facade makes no native call on any platform, the Android
  module issues no read and the iOS module executes no query.
\<close>

theorem getHealthData_omitted_field:
  assumes "opt_identifier options = None \<or> opt_startDate options = None \<or> opt_endDate options = None"
  shows "resolves_with (failed_with ''missing_arguments'') (fst (getHealthData os native options))
       \<and> snd (getHealthData os native options) = []
       \<and> failed_with ''missing_arguments'' (fst (android_getHealthData aenv options))
       \<and> snd (android_getHealthData aenv options) = 0
       \<and> failed_with ''missing_arguments'' (fst (ios_getHealthData ienv options))
       \<and> snd (ios_getHealthData ienv options) = []"
proof -
  from assms have f: "falsy (opt_identifier options) \<or> falsy (opt_startDate options)
      \<or> falsy (opt_endDate options)"
    by (auto simp: falsy_def)
  have facade: "getHealthData os native options = (Resolved missing_arguments_result, [])"
    using f by (rule falsy_missing)
  have android: "android_getHealthData aenv options =
      (error_result ''missing_arguments''
        ''Missing required options: identifier, startDate, endDate.'', 0)"
    using assms by (auto simp: android_getHealthData_def split: option.splits)
  have ios: "ios_getHealthData ienv options =
      (error_result ''missing_arguments''
        ''Missing required options: identifier, startDate, endDate.'', [])"
    using assms by (auto simp: ios_getHealthData_def string_or_empty_def Let_def)
  show ?thesis
    by (simp add: facade android ios resolves_with_def failed_with_missing_arguments_result
        failed_with_error_result)
qed

theorem getHealthData_omitted_field_witness:
  "resolves_with (failed_with ''missing_arguments'')
     (fst (getHealthData ''ios'' rejecting_native
        (query_options None (Some ''2024-01-01T00:00:00Z'') (Some ''2024-01-01T00:00:00.000Z''))))
   \<and> snd (getHealthData ''ios'' rejecting_native
        (query_options None (Some ''2024-01-01T00:00:00Z'') (Some ''2024-01-01T00:00:00.000Z''))) = []
   \<and> failed_with ''missing_arguments''
        (fst (android_getHealthData (sample_android_env True)
           (query_options None (Some ''2024-01-01T00:00:00Z'') (Some ''2024-01-01T00:00:00.000Z''))))
   \<and> failed_with ''missing_arguments''
        (fst (ios_getHealthData sample_ios_env
           (query_options None (Some ''2024-01-01T00:00:00Z'') (Some ''2024-01-01T00:00:00.000Z''))))"
  using getHealthData_omitted_field [of
      "query_options None (Some ''2024-01-01T00:00:00Z'') (Some ''2024-01-01T00:00:00.000Z'')"
      "''ios''" rejecting_native "sample_android_env True" sample_ios_env]
  by (simp add: query_options_def)

text \<open>
  C5, as stated: every call whose \<open>startDate\<close> or \<open>endDate\<close> does not match the date
  pattern gets \<open>invalid_date\<close> from the facade. It fails where the check for missing
  arguments, which comes first, already answers: with the identifier omitted and
  \<open>startDate\<close> \<open>"not-a-date"\<close>, and with an empty \<open>startDate\<close> (which does not match the
  pattern either), the code is \<open>missing_arguments\<close>.
\<close>

theorem getHealthData_invalid_date_counterexample:
  "\<not> dateRegex_test ''not-a-date'' \<and>
   \<not> resolves_with (failed_with ''invalid_date'')
     (fst (getHealthData ''ios'' rejecting_native
        \<lparr>opt_identifier = None, opt_startDate = Some ''not-a-date'',
         opt_endDate = Some ''2024-01-02T00:00:00Z'', opt_aggregation = None,
         opt_limit = None, opt_ascending = None\<rparr>)) \<and>
   \<not> dateRegex_test '''' \<and>
   \<not> resolves_with (failed_with ''invalid_date'')
     (fst (getHealthData ''ios'' rejecting_native
        \<lparr>opt_identifier = Some ''stepCount'', opt_startDate = Some '''',
         opt_endDate = Some ''2024-01-02T00:00:00Z'', opt_aggregation = None,
         opt_limit = None, opt_ascending = None\<rparr>))"
  by (simp add: dateRegex_examples getHealthData_def falsy_def resolves_with_def failed_with_def
      missing_arguments_result_def createHealthDataError_def)

text \<open>
  C5, amended: when \<open>identifier\<close>, \<open>startDate\<close> and \<open>endDate\<close> are all present and not
  empty, and \<open>startDate\<close> or \<open>endDate\<close> does not match the pattern, the facade resolves
  with \<open>success: false\<close>, code \<open>invalid_date\<close> and no data, on every platform, and makes
  no native call.
\<close>

theorem getHealthData_invalid_date:
  assumes "opt_identifier options = Some ident" "ident \<noteq> []"
    and "opt_startDate options = Some start" "start \<noteq> []"
    and "opt_endDate options = Some end" "end \<noteq> []"
    and "\<not> dateRegex_test start \<or> \<not> dateRegex_test end"
  shows "resolves_with (failed_with ''invalid_date'') (fst (getHealthData os native options))
       \<and> snd (getHealthData os native options) = []"
proof -
  have "getHealthData os native options = (Resolved invalid_date_result, [])"
    using assms by (intro invalid_date_branch) (auto simp: falsy_def string_or_empty_def)
  then show ?thesis
    by (simp add: resolves_with_def failed_with_invalid_date_result)
qed

theorem getHealthData_invalid_date_witness:
  "resolves_with (failed_with ''invalid_date'')
     (fst (getHealthData ''android'' rejecting_native
        \<lparr>opt_identifier = Some ''stepCount'', opt_startDate = Some ''not-a-date'',
         opt_endDate = Some ''2024-01-02T00:00:00Z'', opt_aggregation = None,
         opt_limit = None, opt_ascending = None\<rparr>))
   \<and> snd (getHealthData ''android'' rejecting_native
        \<lparr>opt_identifier = Some ''stepCount'', opt_startDate = Some ''not-a-date'',
         opt_endDate = Some ''2024-01-02T00:00:00Z'', opt_aggregation = None,
         opt_limit = None, opt_ascending = None\<rparr>) = []"
  using getHealthData_invalid_date [of
      "\<lparr>opt_identifier = Some ''stepCount'', opt_startDate = Some ''not-a-date'',
         opt_endDate = Some ''2024-01-02T00:00:00Z'', opt_aggregation = None,
         opt_limit = None, opt_ascending = None\<rparr>"
      "''stepCount''" "''not-a-date''" "''2024-01-02T00:00:00Z''" "''android''"
      rejecting_native]
  by (simp add: dateRegex_examples)

text \<open>
  C10. An empty string for \<open>identifier\<close>, \<open>startDate\<close> or \<open>endDate\<close> is falsy, so the
  facade answers \<open>missing_arguments\<close> with no data (not \<open>unsupported_identifier\<close>, not
  \<open>invalid_date\<close>) and makes no native call; the iOS module, which guards on the
  emptiness of the strings it parsed, answers the same and executes no query.
\<close>

theorem getHealthData_empty_string:
  assumes "opt_identifier options = Some [] \<or> opt_startDate options = Some []
      \<or> opt_endDate options = Some []"
  shows "resolves_with (failed_with ''missing_arguments'') (fst (getHealthData os native options))
       \<and> \<not> resolves_with (failed_with ''unsupported_identifier'') (fst (getHealthData os native options))
       \<and> \<not> resolves_with (failed_with ''invalid_date'') (fst (getHealthData os native options))
       \<and> snd (getHealthData os native options) = []
       \<and> failed_with ''missing_arguments'' (fst (ios_getHealthData ienv options))
       \<and> snd (ios_getHealthData ienv options) = []"
proof -
  from assms have "falsy (opt_identifier options) \<or> falsy (opt_startDate options)
      \<or> falsy (opt_endDate options)"
    by (auto simp: falsy_def)
  then have facade: "getHealthData os native options = (Resolved missing_arguments_result, [])"
    by (rule falsy_missing)
  have ios: "ios_getHealthData ienv options =
      (error_result ''missing_arguments''
        ''Missing required options: identifier, startDate, endDate.'', [])"
    using assms by (auto simp: ios_getHealthData_def string_or_empty_def Let_def)
  have differs: "\<not> failed_with ''unsupported_identifier'' (missing_arguments_result :: 'a GetHealthDataResult)"
    "\<not> failed_with ''invalid_date'' (missing_arguments_result :: 'a GetHealthDataResult)"
    by (simp_all add: failed_with_def missing_arguments_result_def createHealthDataError_def)
  show ?thesis
    by (simp add: facade ios resolves_with_def failed_with_missing_arguments_result
        failed_with_error_result differs)
qed

theorem getHealthData_empty_string_witness:
  "resolves_with (failed_with ''missing_arguments'')
     (fst (getHealthData ''android'' rejecting_native
        (query_options (Some []) (Some ''2024-01-01T00:00:00Z'') (Some ''2024-01-01T00:00:00.000Z''))))
   \<and> failed_with ''missing_arguments''
        (fst (ios_getHealthData sample_ios_env
           (query_options (Some []) (Some ''2024-01-01T00:00:00Z'') (Some ''2024-01-01T00:00:00.000Z''))))"
  using getHealthData_empty_string [of
      "query_options (Some []) (Some ''2024-01-01T00:00:00Z'') (Some ''2024-01-01T00:00:00.000Z'')"
      "''android''" rejecting_native sample_ios_env]
  by (simp add: query_options_def)

text \<open>
  C8, as stated: on a platform other than iOS and Android, \<open>getHealthData\<close> resolves with
  an \<open>unsupported_platform\<close> or \<open>permission_denied\<close> error. It fails for a call that does
  not pass the facade's validation, which comes before the platform is looked at: on
  \<open>"web"\<close>, with the identifier omitted, the code is \<open>missing_arguments\<close>.
\<close>

theorem unsupported_platform_counterexample:
  "''web'' \<noteq> ''ios'' \<and> ''web'' \<noteq> ''android'' \<and>
   \<not> resolves_with (\<lambda>r. failed_with ''unsupported_platform'' r \<or> failed_with ''permission_denied'' r)
     (fst (getHealthData ''web'' rejecting_native
        \<lparr>opt_identifier = None, opt_startDate = Some ''2024-01-01T00:00:00Z'',
         opt_endDate = Some ''2024-01-02T00:00:00Z'', opt_aggregation = None,
         opt_limit = None, opt_ascending = None\<rparr>))"
  by (simp add: getHealthData_def falsy_def resolves_with_def failed_with_def
      missing_arguments_result_def createHealthDataError_def)

text \<open>
  C8, amended: on a platform other than iOS and Android, \<open>authorizeHealthKit\<close> resolves
  with \<open>success: false\<close>, empty \<open>granted\<close> and \<open>denied\<close> and the fixed message, and
  \<open>getHealthData\<close> resolves with \<open>success: false\<close>, no data and an error; neither makes a
  native call. The error code of \<open>getHealthData\<close> is \<open>permission_denied\<close> when the three
  required fields are present, not empty, and both dates match the pattern (otherwise it
  is \<open>missing_arguments\<close> or \<open>invalid_date\<close>). The module of the web build, called
  directly, answers \<open>success: false\<close> too, with code \<open>unsupported_platform\<close>.
\<close>

theorem unsupported_platform_results:
  assumes "os \<noteq> ''ios''" "os \<noteq> ''android''"
  shows "authorizeHealthKit os nativeAuthorize =
           (Resolved \<lparr>auth_success = False, granted = [], denied = [],
              auth_error = Some ''Health data is only available on iOS and Android.''\<rparr>, 0)
       \<and> resolves_with (\<lambda>r. \<not> success r \<and> data r = [] \<and> error r \<noteq> None)
            (fst (getHealthData os native options))
       \<and> snd (getHealthData os native options) = []
       \<and> (\<not> falsy (opt_identifier options) \<and> \<not> falsy (opt_startDate options)
            \<and> \<not> falsy (opt_endDate options)
            \<and> dateRegex_test (string_or_empty (opt_startDate options))
            \<and> dateRegex_test (string_or_empty (opt_endDate options))
          \<longrightarrow> resolves_with (failed_with ''permission_denied'')
                (fst (getHealthData os native options)))
       \<and> \<not> auth_success web_authorizeHealthKit
       \<and> failed_with ''unsupported_platform''
            (web_getHealthData options :: HealthDataSample GetHealthDataResult)"
proof -
  let ?valid = "\<not> falsy (opt_identifier options) \<and> \<not> falsy (opt_startDate options)
      \<and> \<not> falsy (opt_endDate options)
      \<and> dateRegex_test (string_or_empty (opt_startDate options))
      \<and> dateRegex_test (string_or_empty (opt_endDate options))"
  have auth: "authorizeHealthKit os nativeAuthorize =
      (Resolved \<lparr>auth_success = False, granted = [], denied = [],
         auth_error = Some ''Health data is only available on iOS and Android.''\<rparr>, 0)"
    using assms by (simp add: authorizeHealthKit_def)
  consider (missing) "falsy (opt_identifier options) \<or> falsy (opt_startDate options)
        \<or> falsy (opt_endDate options)"
    | (invalid) "\<not> falsy (opt_identifier options)" "\<not> falsy (opt_startDate options)"
        "\<not> falsy (opt_endDate options)"
        "\<not> dateRegex_test (string_or_empty (opt_startDate options))
          \<or> \<not> dateRegex_test (string_or_empty (opt_endDate options))"
    | (valid) ?valid
    by blast
  then have rest: "resolves_with (\<lambda>r. \<not> success r \<and> data r = [] \<and> error r \<noteq> None)
        (fst (getHealthData os native options))
      \<and> snd (getHealthData os native options) = []
      \<and> (?valid \<longrightarrow> resolves_with (failed_with ''permission_denied'')
            (fst (getHealthData os native options)))"
  proof cases
    case missing
    then have "getHealthData os native options = (Resolved missing_arguments_result, [])"
      by (rule falsy_missing)
    with missing show ?thesis
      by (auto simp: resolves_with_def missing_arguments_result_def)
  next
    case invalid
    then have "getHealthData os native options = (Resolved invalid_date_result, [])"
      by (rule invalid_date_branch)
    with invalid show ?thesis
      by (auto simp: resolves_with_def invalid_date_result_def)
  next
    case valid
    then have "getHealthData os native options = (Resolved createUnsupportedPlatformError, [])"
      using assms by (intro unsupported_platform_branch) simp_all
    then show ?thesis
      by (simp add: resolves_with_def failed_with_createUnsupportedPlatformError)
        (simp add: createUnsupportedPlatformError_def)
  qed
  have web: "\<not> auth_success web_authorizeHealthKit"
    "failed_with ''unsupported_platform''
       (web_getHealthData options :: HealthDataSample GetHealthDataResult)"
    by (simp_all add: web_authorizeHealthKit_def web_getHealthData_def failed_with_def)
  from auth rest web show ?thesis by blast
qed

theorem unsupported_platform_results_witness:
  "authorizeHealthKit ''web'' (Rejected NotAnError) =
     (Resolved \<lparr>auth_success = False, granted = [], denied = [],
        auth_error = Some ''Health data is only available on iOS and Android.''\<rparr>, 0)
   \<and> resolves_with (failed_with ''permission_denied'')
     (fst (getHealthData ''web'' rejecting_native
        \<lparr>opt_identifier = Some ''stepCount'', opt_startDate = Some ''2024-01-01T00:00:00Z'',
         opt_endDate = Some ''2024-01-01T00:00:00.000Z'', opt_aggregation = None,
         opt_limit = None, opt_ascending = None\<rparr>))
   \<and> snd (getHealthData ''web'' rejecting_native
        \<lparr>opt_identifier = Some ''stepCount'', opt_startDate = Some ''2024-01-01T00:00:00Z'',
         opt_endDate = Some ''2024-01-01T00:00:00.000Z'', opt_aggregation = None,
         opt_limit = None, opt_ascending = None\<rparr>) = []"
  using unsupported_platform_results [of "''web''" "Rejected NotAnError"
      rejecting_native
      "\<lparr>opt_identifier = Some ''stepCount'', opt_startDate = Some ''2024-01-01T00:00:00Z'',
         opt_endDate = Some ''2024-01-01T00:00:00.000Z'', opt_aggregation = None,
         opt_limit = None, opt_ascending = None\<rparr>"]
  by (simp add: dateRegex_examples falsy_def string_or_empty_def)

section \<open>Properties of \<open>getHealthData\<close>: the result contract and unsupported identifiers\<close>

lemma result_consistent_error_result: "result_consistent (error_result c m)"
  by (simp add: result_consistent_def error_result_def)

lemma result_consistent_success_result: "result_consistent (success_result xs)"
  by (simp add: result_consistent_def success_result_def)

lemma result_consistent_completion_handler: "result_consistent (completion_handler f d)"
  by (simp add: completion_handler_def result_consistent_error_result
      result_consistent_success_result split: option.splits)

lemma result_consistent_android: "result_consistent (fst (android_getHealthData env options))"
  by (simp add: android_getHealthData_def result_consistent_error_result
      result_consistent_success_result split: option.splits sum.splits)

lemma result_consistent_ios: "result_consistent (fst (ios_getHealthData env options))"
  by (simp add: ios_getHealthData_def Let_def result_consistent_error_result
      result_consistent_completion_handler split: option.splits)

lemma result_consistent_facade_results:
  "result_consistent (missing_arguments_result :: 's GetHealthDataResult)"
  "result_consistent (invalid_date_result :: 's GetHealthDataResult)"
  "result_consistent (createUnsupportedPlatformError :: 's GetHealthDataResult)"
  "result_consistent (createExceptionError e :: 's GetHealthDataResult)"
  by (simp_all add: result_consistent_def missing_arguments_result_def invalid_date_result_def
      createUnsupportedPlatformError_def createExceptionError_def)

lemma result_consistent_facade:
  assumes "\<And>opts r. native opts = Resolved r \<Longrightarrow> result_consistent r"
    and "fst (getHealthData os native options) = Resolved r"
  shows "result_consistent r"
  using assms
  by (auto simp: getHealthData_def Let_def result_consistent_facade_results
      split: if_splits promise.splits)

lemma ios_unsupported_branch:
  assumes "opt_identifier options = Some ident" "ident \<noteq> []"
    and "opt_startDate options = Some start" "start \<noteq> []"
    and "opt_endDate options = Some end" "end \<noteq> []"
    and "isoFormatter_date env start = Some d1" "isoFormatter_date env end = Some d2"
    and "ident \<notin> set quantityTypeIdentifiers" "ident \<notin> set categoryTypeIdentifiers"
    and "ident \<notin> set workoutTypeIdentifiers"
  shows "ios_getHealthData env options =
    (error_result ''unsupported_identifier'' ''Identifier not supported.'', [])"
proof -
  have "ident \<noteq> workoutType_identifier"
    using assms(11) by (auto simp: workoutTypeIdentifiers_def workoutType_identifier_def)
  then show ?thesis
    using assms by (simp add: ios_getHealthData_def string_or_empty_def)
qed

lemma android_unsupported_branch:
  assumes "opt_identifier options = Some ident"
    and "opt_startDate options = Some start"
    and "opt_endDate options = Some end"
    and "isHealthConnectAvailable env" "map_of recordTypeMap ident = None"
  shows "failed_with ''unsupported_identifier'' (fst (android_getHealthData env options))"
    and "snd (android_getHealthData env options) = 0"
  using assms by (simp_all add: android_getHealthData_def failed_with_error_result)

lemma ios_facade_forwards:
  assumes "opt_identifier options = Some ident" "ident \<noteq> []"
    and "opt_startDate options = Some start" "start \<noteq> []" "dateRegex_test start"
    and "opt_endDate options = Some end" "end \<noteq> []" "dateRegex_test end"
  shows "fst (getHealthData ''ios'' native options) =
    (case native (options\<lparr>opt_identifier := Some (ios_identifier ident)\<rparr>) of
       Resolved res \<Rightarrow> Resolved res | Rejected e \<Rightarrow> Resolved (createExceptionError e))"
  using assms by (simp add: getHealthData_def falsy_def string_or_empty_def Let_def)

lemma android_facade_forwards:
  assumes "opt_identifier options = Some ident" "ident \<noteq> []"
    and "opt_startDate options = Some start" "start \<noteq> []" "dateRegex_test start"
    and "opt_endDate options = Some end" "end \<noteq> []" "dateRegex_test end"
  shows "fst (getHealthData ''android'' native options) =
    native (options\<lparr>opt_identifier := Some (android_identifier ident),
                    opt_aggregation := Some (case opt_aggregation options of
                                               None \<Rightarrow> ''raw'' | Some a \<Rightarrow> a)\<rparr>)"
  using assms by (simp add: getHealthData_def falsy_def string_or_empty_def Let_def)

lemma bogus_id_not_listed:
  "''bogus-id'' \<notin> set (quantityTypeIdentifiers @ categoryTypeIdentifiers @ workoutTypeIdentifiers)"
  "map_of recordTypeMap ''bogus-id'' = None"
  "ios_identifier ''bogus-id'' = ''bogus-id''"
  "android_identifier ''bogus-id'' = ''bogus-id''"
  by (simp_all add: quantityTypeIdentifiers_def categoryTypeIdentifiers_def
      workoutTypeIdentifiers_def recordTypeMap_def ios_identifier_def android_identifier_def
      mapped_or_self_def read_IDENTIFIER_MAPPING_def IDENTIFIER_MAPPING_def
      Object_prototype_keys_def)

lemma steps_query_result:
  "fst (android_stack (sample_android_env True)
     (query_options (Some ''stepCount'') (Some ''2024-01-01T00:00:00Z'')
        (Some ''2024-01-01T00:00:00.000Z'')))
   = Resolved (success_result
       [formatRecordToStandardFormat (sample_android_env True)
          \<lparr>payload = StepsRecord 500, record_time = IntervalRecord 0 0,
           packageName = Some ''com.example.steps'', record_device = None\<rparr>])"
  unfolding android_stack_def
  by (subst android_facade_forwards [of _ "''stepCount''" "''2024-01-01T00:00:00Z''"
        "''2024-01-01T00:00:00.000Z''"])
    (simp_all add: query_options_def dateRegex_examples android_getHealthData_def
      sample_android_env_def android_identifier_def mapped_or_self_def
      read_IDENTIFIER_MAPPING_def IDENTIFIER_MAPPING_def recordTypeMap_def)

text \<open>
  C7. Every result of \<open>getHealthData\<close> keeps the contract of the success flag: a failure
  has an empty data list and an error, a success has no error. This holds for every
  branch of the Android module and of the iOS module, for the facade over any native
  function whose resolved results keep the contract, and so for the facade on top of
  either module.
\<close>

theorem getHealthData_result_consistent:
  "result_consistent (fst (android_getHealthData aenv options))
   \<and> result_consistent (fst (ios_getHealthData ienv options))
   \<and> result_consistent (ios_exception_result m)
   \<and> result_consistent (web_getHealthData options :: HealthDataSample GetHealthDataResult)
   \<and> ((\<forall>opts r. native opts = Resolved r \<longrightarrow> result_consistent r)
        \<longrightarrow> (\<forall>r. fst (getHealthData os native options) = Resolved r \<longrightarrow> result_consistent r))
   \<and> resolves_with result_consistent (fst (ios_stack ienv options))
   \<and> resolves_with result_consistent (fst (android_stack aenv options))"
proof -
  have facade: "(\<forall>opts r. native opts = Resolved r \<longrightarrow> result_consistent r)
        \<longrightarrow> (\<forall>r. fst (getHealthData os native options) = Resolved r \<longrightarrow> result_consistent r)"
    using result_consistent_facade [of native os options] by blast
  have ios: "resolves_with result_consistent (fst (ios_stack ienv options))"
    by (simp add: ios_stack_def getHealthData_def Let_def resolves_with_def
        result_consistent_facade_results result_consistent_ios)
  have android: "resolves_with result_consistent (fst (android_stack aenv options))"
    by (simp add: android_stack_def getHealthData_def Let_def resolves_with_def
        result_consistent_facade_results result_consistent_android)
  have caught: "result_consistent (ios_exception_result m)"
    by (simp add: ios_exception_result_def result_consistent_error_result)
  have web: "result_consistent (web_getHealthData options :: HealthDataSample GetHealthDataResult)"
    by (simp add: web_getHealthData_def result_consistent_def)
  show ?thesis
    using facade ios android caught web result_consistent_android result_consistent_ios by blast
qed

theorem getHealthData_result_consistent_witness:
  "resolves_with (\<lambda>r. result_consistent r \<and> success r \<and> length (data r) = 1)
     (fst (getHealthData ''android''
        (\<lambda>opts. Resolved (fst (android_getHealthData (sample_android_env True) opts)))
        (query_options (Some ''stepCount'') (Some ''2024-01-01T00:00:00Z'')
           (Some ''2024-01-01T00:00:00.000Z''))))
   \<and> resolves_with (\<lambda>r. result_consistent r \<and> \<not> success r)
     (fst (getHealthData ''ios''
        (\<lambda>opts. Resolved (fst (ios_getHealthData sample_ios_env opts)))
        (query_options (Some ''stepCount'') (Some ''not-a-date'')
           (Some ''2024-01-01T00:00:00.000Z''))))"
proof -
  let ?android = "\<lambda>opts. Resolved (fst (android_getHealthData (sample_android_env True) opts))"
  let ?ios = "\<lambda>opts. Resolved (fst (ios_getHealthData sample_ios_env opts))"
  let ?steps = "query_options (Some ''stepCount'') (Some ''2024-01-01T00:00:00Z'')
           (Some ''2024-01-01T00:00:00.000Z'')"
  let ?bad = "query_options (Some ''stepCount'') (Some ''not-a-date'')
           (Some ''2024-01-01T00:00:00.000Z'')"
  have a: "\<forall>opts r. ?android opts = Resolved r \<longrightarrow> result_consistent r"
    using getHealthData_result_consistent [where aenv = "sample_android_env True", THEN conjunct1]
    by auto
  have i: "\<forall>opts r. ?ios opts = Resolved r \<longrightarrow> result_consistent r"
    using getHealthData_result_consistent [where ienv = sample_ios_env, THEN conjunct2, THEN conjunct1]
    by auto
  have r1: "fst (getHealthData ''android'' ?android ?steps) = Resolved (success_result
       [formatRecordToStandardFormat (sample_android_env True)
          \<lparr>payload = StepsRecord 500, record_time = IntervalRecord 0 0,
           packageName = Some ''com.example.steps'', record_device = None\<rparr>])"
    using steps_query_result by (simp add: android_stack_def)
  have r2: "fst (getHealthData ''ios'' ?ios ?bad) = Resolved invalid_date_result"
    by (simp add: getHealthData_def query_options_def falsy_def string_or_empty_def
        dateRegex_examples)
  from a r1 getHealthData_result_consistent [where options = ?steps and native = ?android
      and os = "''android''"]
  have c1: "result_consistent (success_result
       [formatRecordToStandardFormat (sample_android_env True)
          \<lparr>payload = StepsRecord 500, record_time = IntervalRecord 0 0,
           packageName = Some ''com.example.steps'', record_device = None\<rparr>])"
    by blast
  from i r2 getHealthData_result_consistent [where options = ?bad and native = ?ios and os = "''ios''"]
  have c2: "result_consistent (invalid_date_result :: HealthDataSample GetHealthDataResult)"
    by blast
  show ?thesis
    unfolding r1 r2 using c1 c2
    by (simp add: resolves_with_def success_result_def invalid_date_result_def)
qed

text \<open>
  C6, as stated: with well-formed dates and an identifier that is not in the platform's
  record-type table, the result is \<open>unsupported_identifier\<close> on both platforms. On
  Android it fails when Health Connect is not installed: that guard comes before the
  lookup of the identifier, and \<open>"bogus-id"\<close> gets \<open>health_connect_unavailable\<close>.
\<close>

theorem unsupported_identifier_counterexample:
  "map_of recordTypeMap ''bogus-id'' = None
   \<and> dateRegex_test ''2024-01-01T00:00:00Z'' \<and> dateRegex_test ''2024-01-01T00:00:00.000Z''
   \<and> \<not> failed_with ''unsupported_identifier''
        (fst (android_getHealthData (sample_android_env False)
           (query_options (Some ''bogus-id'') (Some ''2024-01-01T00:00:00Z'')
              (Some ''2024-01-01T00:00:00.000Z''))))
   \<and> resolves_with (failed_with ''health_connect_unavailable'')
        (fst (android_stack (sample_android_env False)
           (query_options (Some ''bogus-id'') (Some ''2024-01-01T00:00:00Z'')
              (Some ''2024-01-01T00:00:00.000Z''))))"
proof -
  have 1: "map_of recordTypeMap ''bogus-id'' = None"
    by (simp add: recordTypeMap_def)
  have 2: "android_getHealthData (sample_android_env False) (query_options (Some i) (Some s) (Some e))
      = (error_result ''health_connect_unavailable''
              ''Health Connect is not available on this device.'', 0)" for i s e
    by (simp add: android_getHealthData_def sample_android_env_def query_options_def)
  have 3: "\<not> failed_with ''unsupported_identifier''
      (error_result ''health_connect_unavailable'' m :: HealthDataSample GetHealthDataResult)" for m
    by (simp add: failed_with_def error_result_def)
  have 4: "fst (android_stack (sample_android_env False)
           (query_options (Some ''bogus-id'') (Some ''2024-01-01T00:00:00Z'')
              (Some ''2024-01-01T00:00:00.000Z'')))
     = Resolved (error_result ''health_connect_unavailable''
              ''Health Connect is not available on this device.'')"
    unfolding android_stack_def
    by (subst android_facade_forwards [of _ "''bogus-id''" "''2024-01-01T00:00:00Z''"
          "''2024-01-01T00:00:00.000Z''"])
      (simp_all add: query_options_def dateRegex_examples android_getHealthData_def
        sample_android_env_def)
  show ?thesis
    by (simp add: 1 2 3 4 dateRegex_examples resolves_with_def failed_with_error_result)
qed

text \<open>
  C6, amended: for a call with the three required fields present and not empty, and an
  identifier that is not in the platform's record-type table, the result is
  \<open>success: false\<close>, code \<open>unsupported_identifier\<close>, no data, and no query is issued: on
  iOS when the native formatter parses both dates, on Android when Health Connect is
  installed. The same holds through the facade, for dates that also match its pattern
  and an identifier whose mapped name is not in the table.
\<close>

theorem unsupported_identifier:
  assumes "opt_identifier options = Some ident" "ident \<noteq> []"
    and "opt_startDate options = Some start" "start \<noteq> []"
    and "opt_endDate options = Some end" "end \<noteq> []"
  shows "(isoFormatter_date ienv start \<noteq> None \<and> isoFormatter_date ienv end \<noteq> None
          \<and> ident \<notin> set (quantityTypeIdentifiers @ categoryTypeIdentifiers @ workoutTypeIdentifiers)
        \<longrightarrow> failed_with ''unsupported_identifier'' (fst (ios_getHealthData ienv options))
          \<and> snd (ios_getHealthData ienv options) = [])
       \<and> (isHealthConnectAvailable aenv \<and> map_of recordTypeMap ident = None
        \<longrightarrow> failed_with ''unsupported_identifier'' (fst (android_getHealthData aenv options))
          \<and> snd (android_getHealthData aenv options) = 0)
       \<and> (dateRegex_test start \<and> dateRegex_test end
          \<and> isoFormatter_date ienv start \<noteq> None \<and> isoFormatter_date ienv end \<noteq> None
          \<and> ios_identifier ident
              \<notin> set (quantityTypeIdentifiers @ categoryTypeIdentifiers @ workoutTypeIdentifiers)
        \<longrightarrow> resolves_with (failed_with ''unsupported_identifier'') (fst (ios_stack ienv options)))
       \<and> (dateRegex_test start \<and> dateRegex_test end
          \<and> isHealthConnectAvailable aenv \<and> map_of recordTypeMap (android_identifier ident) = None
        \<longrightarrow> resolves_with (failed_with ''unsupported_identifier'')
              (fst (android_stack aenv options)))"
proof (intro conjI impI)
  assume h: "isoFormatter_date ienv start \<noteq> None \<and> isoFormatter_date ienv end \<noteq> None
          \<and> ident \<notin> set (quantityTypeIdentifiers @ categoryTypeIdentifiers @ workoutTypeIdentifiers)"
  then obtain d1 d2 where "isoFormatter_date ienv start = Some d1"
      "isoFormatter_date ienv end = Some d2" by auto
  with h assms have "ios_getHealthData ienv options =
      (error_result ''unsupported_identifier'' ''Identifier not supported.'', [])"
    by (intro ios_unsupported_branch [of options ident start "end" ienv d1 d2]) simp_all
  then show "failed_with ''unsupported_identifier'' (fst (ios_getHealthData ienv options))"
    and "snd (ios_getHealthData ienv options) = []"
    by (simp_all add: failed_with_error_result)
next
  assume h: "isHealthConnectAvailable aenv \<and> map_of recordTypeMap ident = None"
  with assms show "failed_with ''unsupported_identifier'' (fst (android_getHealthData aenv options))"
    and "snd (android_getHealthData aenv options) = 0"
    using android_unsupported_branch [of options ident start "end" aenv] by blast+
next
  assume h: "dateRegex_test start \<and> dateRegex_test end
          \<and> isoFormatter_date ienv start \<noteq> None \<and> isoFormatter_date ienv end \<noteq> None
          \<and> ios_identifier ident
              \<notin> set (quantityTypeIdentifiers @ categoryTypeIdentifiers @ workoutTypeIdentifiers)"
  then obtain d1 d2 where d: "isoFormatter_date ienv start = Some d1"
      "isoFormatter_date ienv end = Some d2" by auto
  have ne: "ios_identifier ident \<noteq> []"
    using assms(2)
    by (auto simp: ios_identifier_def mapped_or_self_def split: property_read.splits)
  let ?fw = "options\<lparr>opt_identifier := Some (ios_identifier ident)\<rparr>"
  have "ios_getHealthData ienv ?fw =
      (error_result ''unsupported_identifier'' ''Identifier not supported.'', [])"
    using h assms d ne
    by (intro ios_unsupported_branch [of ?fw "ios_identifier ident" start "end" ienv d1 d2])
      simp_all
  moreover have "fst (ios_stack ienv options) = Resolved (fst (ios_getHealthData ienv ?fw))"
    unfolding ios_stack_def using assms h
    by (subst ios_facade_forwards [of options ident start "end"]) simp_all
  ultimately show "resolves_with (failed_with ''unsupported_identifier'')
      (fst (ios_stack ienv options))"
    by (simp add: resolves_with_def failed_with_error_result)
next
  assume h: "dateRegex_test start \<and> dateRegex_test end
          \<and> isHealthConnectAvailable aenv \<and> map_of recordTypeMap (android_identifier ident) = None"
  let ?fw = "options\<lparr>opt_identifier := Some (android_identifier ident),
                    opt_aggregation := Some (case opt_aggregation options of
                                               None \<Rightarrow> ''raw'' | Some a \<Rightarrow> a)\<rparr>"
  have "failed_with ''unsupported_identifier'' (fst (android_getHealthData aenv ?fw))"
    using android_unsupported_branch(1) [of ?fw "android_identifier ident" start "end" aenv]
      h assms by simp
  moreover have "fst (android_stack aenv options)
      = Resolved (fst (android_getHealthData aenv ?fw))"
    unfolding android_stack_def using assms h
    by (subst android_facade_forwards [of options ident start "end"]) simp_all
  ultimately show "resolves_with (failed_with ''unsupported_identifier'')
      (fst (android_stack aenv options))"
    by (simp add: resolves_with_def)
qed

theorem unsupported_identifier_witness:
  "failed_with ''unsupported_identifier''
     (fst (ios_getHealthData sample_ios_env
        (query_options (Some ''bogus-id'') (Some ''2024-01-01T00:00:00Z'')
           (Some ''2024-01-01T00:00:00.000Z''))))
   \<and> failed_with ''unsupported_identifier''
     (fst (android_getHealthData (sample_android_env True)
        (query_options (Some ''bogus-id'') (Some ''2024-01-01T00:00:00Z'')
           (Some ''2024-01-01T00:00:00.000Z''))))
   \<and> resolves_with (failed_with ''unsupported_identifier'')
     (fst (ios_stack sample_ios_env
        (query_options (Some ''bogus-id'') (Some ''2024-01-01T00:00:00Z'')
           (Some ''2024-01-01T00:00:00.000Z''))))
   \<and> resolves_with (failed_with ''unsupported_identifier'')
     (fst (android_stack (sample_android_env True)
        (query_options (Some ''bogus-id'') (Some ''2024-01-01T00:00:00Z'')
           (Some ''2024-01-01T00:00:00.000Z''))))"
proof -
  let ?options = "query_options (Some ''bogus-id'') (Some ''2024-01-01T00:00:00Z'')
         (Some ''2024-01-01T00:00:00.000Z'')"
  have fields: "opt_identifier ?options = Some ''bogus-id''" "''bogus-id'' \<noteq> []"
    "opt_startDate ?options = Some ''2024-01-01T00:00:00Z''" "''2024-01-01T00:00:00Z'' \<noteq> []"
    "opt_endDate ?options = Some ''2024-01-01T00:00:00.000Z''"
    "''2024-01-01T00:00:00.000Z'' \<noteq> []"
    by (simp_all add: query_options_def)
  have parsed: "isoFormatter_date sample_ios_env ''2024-01-01T00:00:00Z'' \<noteq> None"
    "isoFormatter_date sample_ios_env ''2024-01-01T00:00:00.000Z'' \<noteq> None"
    by (simp_all add: sample_ios_env_def)
  have installed: "isHealthConnectAvailable (sample_android_env True)"
    by (simp add: sample_android_env_def)
  from unsupported_identifier [OF fields, of sample_ios_env "sample_android_env True"]
    parsed installed bogus_id_not_listed dateRegex_examples(1,2)
  show ?thesis by simp
qed

section \<open>Properties of the normalizers\<close>

lemma digits_below_ten:
  "\<forall>d<10. digit_value (''0123456789'' ! d) = d \<and> ''0123456789'' ! d \<noteq> CHR ''-''"
  by (simp add: All_less_Suc eval_nat_numeral digit_value_def)

lemma digit_value_nth: "d < 10 \<Longrightarrow> digit_value (''0123456789'' ! d) = d"
  using digits_below_ten by blast

lemma digit_not_minus: "d < 10 \<Longrightarrow> ''0123456789'' ! d \<noteq> CHR ''-''"
  using digits_below_ten by blast

lemma decimal_value_decimal_digits: "decimal_value (decimal_digits n) = n"
proof (induction n rule: decimal_digits.induct)
  case (1 n)
  show ?case
  proof (cases "n < 10")
    case True
    then show ?thesis
      by (subst decimal_digits.simps) (simp add: decimal_value_def digit_value_nth)
  next
    case False
    with 1 have ih: "decimal_value (decimal_digits (n div 10)) = n div 10" by simp
    have "decimal_value (decimal_digits n)
        = 10 * decimal_value (decimal_digits (n div 10)) + digit_value (''0123456789'' ! (n mod 10))"
      using False by (subst decimal_digits.simps) (simp add: decimal_value_def)
    also have "\<dots> = 10 * (n div 10) + n mod 10"
      by (simp add: ih digit_value_nth)
    finally show ?thesis by simp
  qed
qed

lemma decimal_digits_head: "\<exists>c t. decimal_digits n = c # t \<and> c \<noteq> CHR ''-''"
proof (induction n rule: decimal_digits.induct)
  case (1 n)
  show ?case
  proof (cases "n < 10")
    case True
    then show ?thesis
      by (subst decimal_digits.simps) (simp add: digit_not_minus)
  next
    case False
    with 1 obtain c t where "decimal_digits (n div 10) = c # t" "c \<noteq> CHR ''-''" by auto
    with False show ?thesis
      by (subst decimal_digits.simps) simp
  qed
qed

lemma Int_of_description_inverse: "Int_of_description (Int_description v) = v"
proof (cases "v < 0")
  case True
  then show ?thesis
    by (simp add: Int_of_description_def Int_description_def decimal_value_decimal_digits)
next
  case False
  obtain c t where ct: "decimal_digits (nat v) = c # t" "c \<noteq> CHR ''-''"
    using decimal_digits_head by blast
  have "int (decimal_value (c # t)) = v"
    using decimal_value_decimal_digits [of "nat v"] False ct(1) by simp
  with False ct show ?thesis
    by (simp add: Int_of_description_def Int_description_def)
qed

lemma Int_description_examples:
  "Int_description 1 = ''1''" "Int_description 42 = ''42''" "Int_description (- 7) = ''-7''"
  "Int_description 1000 = ''1000''"
  by (simp_all add: Int_description_def decimal_digits.simps)

lemma getUnit_table:
  "getUnit ''HKQuantityTypeIdentifierStepCount'' = Some HKUnit_count"
  "getUnit ''HKQuantityTypeIdentifierFlightsClimbed'' = Some HKUnit_count"
  "getUnit ''HKQuantityTypeIdentifierHeartRate'' = Some (unitDivided HKUnit_count HKUnit_minute)"
  "getUnit ''HKQuantityTypeIdentifierRestingHeartRate''
     = Some (unitDivided HKUnit_count HKUnit_minute)"
  "getUnit ''HKQuantityTypeIdentifierHeartRateRecoveryOneMinute''
     = Some (unitDivided HKUnit_count HKUnit_minute)"
  "getUnit ''HKQuantityTypeIdentifierRespiratoryRate''
     = Some (unitDivided HKUnit_count HKUnit_minute)"
  "getUnit ''HKQuantityTypeIdentifierDistanceWalkingRunning'' = Some (HKUnit_meterUnit kilo)"
  "getUnit ''HKQuantityTypeIdentifierDistanceCycling'' = Some (HKUnit_meterUnit kilo)"
  "getUnit ''HKQuantityTypeIdentifierActiveEnergyBurned'' = Some HKUnit_kilocalorie"
  "getUnit ''HKQuantityTypeIdentifierBasalEnergyBurned'' = Some HKUnit_kilocalorie"
  "getUnit ''HKQuantityTypeIdentifierHeartRateVariabilitySDNN'' = Some (HKUnit_secondUnit milli)"
  "getUnit ''HKQuantityTypeIdentifierVO2Max''
     = Some (unitDivided (HKUnit_literUnit milli)
         (unitMultiplied (HKUnit_gramUnit kilo) HKUnit_minute))"
  "getUnit ''HKQuantityTypeIdentifierAppleExerciseTime'' = Some HKUnit_minute"
  "getUnit ''HKQuantityTypeIdentifierAppleStandTime'' = Some HKUnit_minute"
  by (simp_all add: getUnit_def)

lemma getUnit_total: "list_all (\<lambda>ident. getUnit ident \<noteq> None) quantityTypeIdentifiers"
  by (simp add: quantityTypeIdentifiers_def getUnit_table)

lemma ios_quantity_branch:
  assumes "opt_identifier options = Some ident"
    and "opt_startDate options = Some start" "start \<noteq> []"
    and "opt_endDate options = Some end" "end \<noteq> []"
    and "isoFormatter_date env start = Some d1" "isoFormatter_date env end = Some d2"
    and "ident \<in> set quantityTypeIdentifiers" "quantityType_known env ident"
    and "getUnit ident = Some u"
  shows "ios_getHealthData env options =
    (completion_handler (format_quantity_sample env u) (execute_query env ident d1 d2), [ident])"
proof -
  have "ident \<noteq> []"
    using assms(8) by (auto simp: quantityTypeIdentifiers_def)
  then show ?thesis
    using assms by (simp add: ios_getHealthData_def string_or_empty_def)
qed

lemma formatRecord_unit_value:
  "record_time r \<noteq> NeitherRecord \<Longrightarrow>
   sample_unit (formatRecordToStandardFormat env r) = Some (getUnitForRecord (payload r))
   \<and> sample_value (formatRecordToStandardFormat env r) = Some (getValueForRecord (payload r))"
  by (cases "record_time r") (simp_all add: formatRecordToStandardFormat_def Let_def)

text \<open>
  C3. The sleep-analysis codes 0, 2, 3, 4 and 5 become the names of in-bed, awake,
  asleep-core, asleep-deep and asleep-REM (4 becomes
  \<open>"HKCategoryValueSleepAnalysisAsleepDeep"\<close>), whether or not iOS 16 is available; every
  other integer becomes \<open>UNKNOWN_SLEEP_VALUE_\<close> followed by its decimal description, from
  which the integer can be read back; and the value of a normalized sleep-analysis
  category sample is that string.
\<close>

theorem mapSleepAnalysisValue_stages:
  "mapSleepAnalysisValue iOS16 0 = ''HKCategoryValueSleepAnalysisInBed''
   \<and> mapSleepAnalysisValue iOS16 2 = ''HKCategoryValueSleepAnalysisAwake''
   \<and> mapSleepAnalysisValue iOS16 3 = ''HKCategoryValueSleepAnalysisAsleepCore''
   \<and> mapSleepAnalysisValue iOS16 4 = ''HKCategoryValueSleepAnalysisAsleepDeep''
   \<and> mapSleepAnalysisValue iOS16 5 = ''HKCategoryValueSleepAnalysisAsleepREM''
   \<and> (v \<notin> {0, 2, 3, 4, 5}
        \<longrightarrow> mapSleepAnalysisValue iOS16 v = ''UNKNOWN_SLEEP_VALUE_'' @ Int_description v
          \<and> Int_of_description (drop 20 (mapSleepAnalysisValue iOS16 v)) = v)
   \<and> map_option sample_value
        (format_category_sample env (HKCategorySample b ''HKCategoryTypeIdentifierSleepAnalysis'' v))
      = Some (Some (StringValue (mapSleepAnalysisValue (iOS16_available env) v)))"
  by (simp add: mapSleepAnalysisValue_def Int_of_description_inverse)

theorem mapSleepAnalysisValue_stages_witness:
  "(1::int) \<notin> {0, 2, 3, 4, 5} \<and> mapSleepAnalysisValue True 1 = ''UNKNOWN_SLEEP_VALUE_1''
   \<and> mapSleepAnalysisValue False 4 = ''HKCategoryValueSleepAnalysisAsleepDeep''"
  using mapSleepAnalysisValue_stages [of True 1] mapSleepAnalysisValue_stages [of False]
  by (simp add: Int_description_examples)

text \<open>
  C2, as stated: on both normalizers a distance record is given in kilometers. The
  Android normalizer gives a distance of 1500 meters the unit \<open>"m"\<close> and the value 1500,
  not 1.5.
\<close>

theorem quantity_units_counterexample:
  "getUnitForRecord (DistanceRecord (Length 1500)) = ''m''
   \<and> getValueForRecord (DistanceRecord (Length 1500)) = DoubleValue 1500
   \<and> inKilometers (Length 1500) = 3 / 2
   \<and> sample_unit (formatRecordToStandardFormat (sample_android_env True)
        \<lparr>payload = DistanceRecord (Length 1500), record_time = IntervalRecord 0 0,
         packageName = Some ''com.example.walk'', record_device = None\<rparr>) \<noteq> Some ''km''
   \<and> sample_value (formatRecordToStandardFormat (sample_android_env True)
        \<lparr>payload = DistanceRecord (Length 1500), record_time = IntervalRecord 0 0,
         packageName = Some ''com.example.walk'', record_device = None\<rparr>)
      \<noteq> Some (DoubleValue (inKilometers (Length 1500)))"
  by (simp add: inKilometers_def formatRecordToStandardFormat_def Let_def)

text \<open>
  C2, amended. On iOS the unit of a quantity sample comes from the table of \<open>getUnit\<close>:
  steps and flights climbed in count, heart rate, resting heart rate, heart-rate
  recovery and respiratory rate in count per minute, distances in kilometers, energies
  in kilocalories, heart-rate variability in milliseconds, VO2Max in mL/(kg*min); and a
  normalized sample carries that unit's string and the quantity's value in that unit.
  On Android the unit and the value come from \<open>getUnitForRecord\<close> and
  \<open>getValueForRecord\<close>: steps and floors climbed in \<open>"count"\<close>, heart rate and resting
  heart rate in \<open>"bpm"\<close>, respiratory rate in \<open>"breaths/min"\<close>, distance in \<open>"m"\<close> with the
  length in meters, energies in \<open>"kcal"\<close>, VO2Max in mL/(kg.min); there is no
  heart-rate-variability record.
\<close>

theorem quantity_units:
  "(opt_identifier options = Some ident
        \<and> opt_startDate options = Some start \<and> start \<noteq> []
        \<and> opt_endDate options = Some end \<and> end \<noteq> []
        \<and> isoFormatter_date ienv start = Some d1 \<and> isoFormatter_date ienv end = Some d2
        \<and> ident \<in> set quantityTypeIdentifiers \<and> quantityType_known ienv ident
        \<and> execute_query ienv ident d1 d2 = (Some [HKQuantitySample b ty quantity], None)
      \<longrightarrow> (\<exists>u. getUnit ident = Some u
            \<and> success (fst (ios_getHealthData ienv options))
            \<and> map (\<lambda>s. (sample_unit s, sample_value s)) (data (fst (ios_getHealthData ienv options)))
                = [(Some (unitString ienv u), Some (DoubleValue (doubleValue ienv quantity u)))]))
   \<and> (record_time r \<noteq> NeitherRecord
      \<longrightarrow> sample_unit (formatRecordToStandardFormat aenv r) = Some (getUnitForRecord (payload r))
        \<and> sample_value (formatRecordToStandardFormat aenv r)
            = Some (getValueForRecord (payload r)))
   \<and> getUnit ''HKQuantityTypeIdentifierStepCount'' = Some HKUnit_count
   \<and> getUnit ''HKQuantityTypeIdentifierFlightsClimbed'' = Some HKUnit_count
   \<and> getUnit ''HKQuantityTypeIdentifierHeartRate'' = Some (unitDivided HKUnit_count HKUnit_minute)
   \<and> getUnit ''HKQuantityTypeIdentifierRestingHeartRate''
       = Some (unitDivided HKUnit_count HKUnit_minute)
   \<and> getUnit ''HKQuantityTypeIdentifierHeartRateRecoveryOneMinute''
       = Some (unitDivided HKUnit_count HKUnit_minute)
   \<and> getUnit ''HKQuantityTypeIdentifierRespiratoryRate''
       = Some (unitDivided HKUnit_count HKUnit_minute)
   \<and> getUnit ''HKQuantityTypeIdentifierDistanceWalkingRunning'' = Some (HKUnit_meterUnit kilo)
   \<and> getUnit ''HKQuantityTypeIdentifierDistanceCycling'' = Some (HKUnit_meterUnit kilo)
   \<and> getUnit ''HKQuantityTypeIdentifierActiveEnergyBurned'' = Some HKUnit_kilocalorie
   \<and> getUnit ''HKQuantityTypeIdentifierBasalEnergyBurned'' = Some HKUnit_kilocalorie
   \<and> getUnit ''HKQuantityTypeIdentifierHeartRateVariabilitySDNN'' = Some (HKUnit_secondUnit milli)
   \<and> getUnit ''HKQuantityTypeIdentifierVO2Max''
       = Some (unitDivided (HKUnit_literUnit milli)
           (unitMultiplied (HKUnit_gramUnit kilo) HKUnit_minute))
   \<and> (getUnitForRecord (StepsRecord n) = ''count''
        \<and> getValueForRecord (StepsRecord n) = LongValue n)
   \<and> (getUnitForRecord (FloorsClimbedRecord x) = ''count''
        \<and> getValueForRecord (FloorsClimbedRecord x) = DoubleValue x)
   \<and> (getUnitForRecord (HeartRateRecord n) = ''bpm''
        \<and> getValueForRecord (HeartRateRecord n) = LongValue n)
   \<and> (getUnitForRecord (RestingHeartRateRecord n) = ''bpm''
        \<and> getValueForRecord (RestingHeartRateRecord n) = LongValue n)
   \<and> (getUnitForRecord (RespiratoryRateRecord x) = ''breaths/min''
        \<and> getValueForRecord (RespiratoryRateRecord x) = DoubleValue x)
   \<and> (getUnitForRecord (DistanceRecord l) = ''m''
        \<and> getValueForRecord (DistanceRecord l) = DoubleValue (inMeters l))
   \<and> (getUnitForRecord (ActiveCaloriesBurnedRecord e) = ''kcal''
        \<and> getValueForRecord (ActiveCaloriesBurnedRecord e) = DoubleValue (inKilocalories e))
   \<and> (getUnitForRecord (TotalCaloriesBurnedRecord e) = ''kcal''
        \<and> getValueForRecord (TotalCaloriesBurnedRecord e) = DoubleValue (inKilocalories e))
   \<and> (getUnitForRecord (Vo2MaxRecord x) = ''mL/(kg'' @ [middle_dot] @ ''min)''
        \<and> getValueForRecord (Vo2MaxRecord x) = DoubleValue x)"
proof -
  have ios: "\<exists>u. getUnit ident = Some u
            \<and> success (fst (ios_getHealthData ienv options))
            \<and> map (\<lambda>s. (sample_unit s, sample_value s)) (data (fst (ios_getHealthData ienv options)))
                = [(Some (unitString ienv u), Some (DoubleValue (doubleValue ienv quantity u)))]"
    if h: "opt_identifier options = Some ident
        \<and> opt_startDate options = Some start \<and> start \<noteq> []
        \<and> opt_endDate options = Some end \<and> end \<noteq> []
        \<and> isoFormatter_date ienv start = Some d1 \<and> isoFormatter_date ienv end = Some d2
        \<and> ident \<in> set quantityTypeIdentifiers \<and> quantityType_known ienv ident
        \<and> execute_query ienv ident d1 d2 = (Some [HKQuantitySample b ty quantity], None)"
  proof -
    from h getUnit_total obtain u where u: "getUnit ident = Some u"
      unfolding list_all_iff by blast
    have "ios_getHealthData ienv options =
      (completion_handler (format_quantity_sample ienv u) (execute_query ienv ident d1 d2), [ident])"
      using h u by (intro ios_quantity_branch [of options ident start "end" ienv d1 d2 u]) simp_all
    with h u show ?thesis
      by (simp add: completion_handler_def success_result_def base_fields_def)
  qed
  show ?thesis
    using ios formatRecord_unit_value [of r aenv]
    by (simp add: getUnit_table del: ex_simps)
qed

theorem quantity_units_witness:
  "map (\<lambda>s. (sample_unit s, sample_value s))
     (data (fst (ios_getHealthData steps_ios_env
        (query_options (Some ''HKQuantityTypeIdentifierStepCount'') (Some ''2024-01-01T00:00:00Z'')
           (Some ''2024-01-01T00:00:00.000Z'')))))
     = [(Some ''count'', Some (DoubleValue 500))]
   \<and> sample_unit (formatRecordToStandardFormat (sample_android_env True)
        \<lparr>payload = StepsRecord 500, record_time = IntervalRecord 0 0,
         packageName = Some ''com.example.steps'', record_device = None\<rparr>) = Some ''count''
   \<and> sample_value (formatRecordToStandardFormat (sample_android_env True)
        \<lparr>payload = StepsRecord 500, record_time = IntervalRecord 0 0,
         packageName = Some ''com.example.steps'', record_device = None\<rparr>)
       = Some (LongValue 500)"
proof -
  let ?options = "query_options (Some ''HKQuantityTypeIdentifierStepCount'')
      (Some ''2024-01-01T00:00:00Z'') (Some ''2024-01-01T00:00:00.000Z'')"
  let ?r = "\<lparr>payload = StepsRecord 500, record_time = IntervalRecord (0::nat) 0,
         packageName = Some ''com.example.steps'', record_device = None\<rparr>"
  note t = quantity_units [where options = ?options
      and ident = "''HKQuantityTypeIdentifierStepCount''"
      and start = "''2024-01-01T00:00:00Z''" and ?end = "''2024-01-01T00:00:00.000Z''"
      and ienv = steps_ios_env and ?d1.0 = 0 and ?d2.0 = 0 and b = step_sample_base
      and ty = "''HKQuantityTypeIdentifierStepCount''" and quantity = 500
      and r = ?r and aenv = "sample_android_env True"]
  have given: "opt_identifier ?options = Some ''HKQuantityTypeIdentifierStepCount''
        \<and> opt_startDate ?options = Some ''2024-01-01T00:00:00Z'' \<and> ''2024-01-01T00:00:00Z'' \<noteq> []
        \<and> opt_endDate ?options = Some ''2024-01-01T00:00:00.000Z''
        \<and> ''2024-01-01T00:00:00.000Z'' \<noteq> []
        \<and> isoFormatter_date steps_ios_env ''2024-01-01T00:00:00Z'' = Some 0
        \<and> isoFormatter_date steps_ios_env ''2024-01-01T00:00:00.000Z'' = Some 0
        \<and> ''HKQuantityTypeIdentifierStepCount'' \<in> set quantityTypeIdentifiers
        \<and> quantityType_known steps_ios_env ''HKQuantityTypeIdentifierStepCount''
        \<and> execute_query steps_ios_env ''HKQuantityTypeIdentifierStepCount'' 0 0
            = (Some [HKQuantitySample step_sample_base ''HKQuantityTypeIdentifierStepCount'' 500],
               None)"
    by (simp add: query_options_def steps_ios_env_def sample_ios_env_def
        quantityTypeIdentifiers_def)
  have timed: "record_time ?r \<noteq> NeitherRecord" by simp
  have units: "unitString steps_ios_env HKUnit_count = ''count''"
    "doubleValue steps_ios_env 500 HKUnit_count = 500"
    by (simp_all add: steps_ios_env_def sample_ios_env_def)
  have "\<exists>u. getUnit ''HKQuantityTypeIdentifierStepCount'' = Some u
      \<and> success (fst (ios_getHealthData steps_ios_env ?options))
      \<and> map (\<lambda>s. (sample_unit s, sample_value s))
          (data (fst (ios_getHealthData steps_ios_env ?options)))
        = [(Some (unitString steps_ios_env u), Some (DoubleValue (doubleValue steps_ios_env 500 u)))]"
    by (rule t [THEN conjunct1, THEN mp, OF given])
  then have ios: "map (\<lambda>s. (sample_unit s, sample_value s))
          (data (fst (ios_getHealthData steps_ios_env ?options)))
        = [(Some ''count'', Some (DoubleValue 500))]"
  proof (elim exE conjE)
    fix u
    assume u: "getUnit ''HKQuantityTypeIdentifierStepCount'' = Some u"
      and m: "map (\<lambda>s. (sample_unit s, sample_value s))
          (data (fst (ios_getHealthData steps_ios_env ?options)))
        = [(Some (unitString steps_ios_env u), Some (DoubleValue (doubleValue steps_ios_env 500 u)))]"
    from u have "u = HKUnit_count"
      by (simp add: getUnit_table(1))
    with m units show ?thesis by simp
  qed
  have android: "sample_unit (formatRecordToStandardFormat (sample_android_env True) ?r)
        = Some (getUnitForRecord (payload ?r))
      \<and> sample_value (formatRecordToStandardFormat (sample_android_env True) ?r)
        = Some (getValueForRecord (payload ?r))"
    by (rule t [THEN conjunct2, THEN conjunct1, THEN mp, OF timed])
  have "getUnitForRecord (payload ?r) = ''count''" "getValueForRecord (payload ?r) = LongValue 500"
    by simp_all
  with ios android show ?thesis by simp
qed

section \<open>Properties of background sync\<close>

text \<open>
  C9, as stated: on either platform, \<open>enableBackgroundSync\<close> followed at once by
  \<open>getBackgroundSyncStatus\<close> reports \<open>enabled: true\<close>. On Android it reports
  \<open>enabled: false\<close>: the Android functions are stubs and keep no state.
\<close>

theorem background_sync_counterexample:
  "\<not> enabled (then_status
        (android_enableBackgroundSync \<lparr>syncInterval = Some 1, dataTypes = Some [''Steps'']\<rparr>)
        android_getBackgroundSyncStatus ())"
  by (simp add: then_status_def android_enableBackgroundSync_def
      android_getBackgroundSyncStatus_def)

text \<open>
  C9, amended: on iOS, \<open>enableBackgroundSync\<close> followed at once by
  \<open>getBackgroundSyncStatus\<close> reports \<open>enabled: true\<close>, and \<open>disableBackgroundSync\<close>
  followed by \<open>getBackgroundSyncStatus\<close> reports \<open>enabled: false\<close> (from any state, in
  particular right after enabling). On Android \<open>getBackgroundSyncStatus\<close> reports
  \<open>enabled: false\<close> after either call, and \<open>enableBackgroundSync\<close> itself returns
  \<open>success: false\<close>.
\<close>

theorem background_sync_status:
  "enabled (then_status (ios_enableBackgroundSync now options) ios_getBackgroundSyncStatus m)
   \<and> \<not> enabled (then_status ios_disableBackgroundSync ios_getBackgroundSyncStatus m)
   \<and> \<not> enabled (then_status ios_disableBackgroundSync ios_getBackgroundSyncStatus
          (snd (ios_enableBackgroundSync now options m)))
   \<and> \<not> enabled (then_status (android_enableBackgroundSync options)
          android_getBackgroundSyncStatus u)
   \<and> \<not> sync_success (fst (android_enableBackgroundSync options u))
   \<and> \<not> enabled (then_status android_disableBackgroundSync android_getBackgroundSyncStatus u)"
  by (simp add: then_status_def ios_enableBackgroundSync_def ios_getBackgroundSyncStatus_def
      ios_disableBackgroundSync_def android_enableBackgroundSync_def
      android_getBackgroundSyncStatus_def android_disableBackgroundSync_def Let_def
      setupHealthDataObserver_def scheduleBackgroundHealthSync_def split: option.splits)

end
